theory Spec2Isabelle
  imports Complex_Main "HOL-Library.Word" "HOL-Library.Monad_Syntax"
begin

section \<open>GPU telemetry: the data model of \<open>gpu_monitor.h\<close>\<close>

text \<open>
  The embedding follows \<open>include/core/gpu_monitor.h\<close> and \<open>src/core/gpu_monitor.cpp\<close>.
  \<^item> \<open>unsigned int\<close> is a 32-bit word, \<open>unsigned long long\<close> a 64-bit word.
  \<^item> A \<open>void*\<close> that may be \<open>nullptr\<close> is an \<open>option\<close>; a non-null library or device
    handle is a number.
  \<^item> A function pointer is \<open>None\<close> when null and \<open>Some f\<close> when it points to the library
    function \<open>f\<close>. A library function that fills an out-parameter returns its \<open>int\<close> status
    together with the content of the out-parameter after the call.
  \<^item> Every operation returns an \<open>option\<close>: \<open>None\<close> is the undefined behaviour of a call
    through a null function pointer, \<open>Some\<close> a normal return.
  \<^item> A \<open>float\<close> is kept as the expression that computes it; \<open>fval\<close> gives the
    expression its IEEE binary32 value, every operation rounded to the nearest
    representable number, ties to even.
\<close>

type_synonym uint = "32 word"
type_synonym ulonglong = "64 word"
type_synonym lib_handle = nat
type_synonym nvml_device = nat

datatype cfloat =
    F_zero                    \<comment> \<open>the literal \<open>0.0f\<close>\<close>
  | F_of_uint uint            \<comment> \<open>\<open>static_cast<float>(u)\<close>\<close>
  | F_div_1000 cfloat         \<comment> \<open>\<open>x / 1000.0f\<close>\<close>

text \<open>
  Rounding to the nearest integer, a tie going to the even neighbour.
\<close>

definition round_even :: "real \<Rightarrow> int" where
  "round_even q =
     (let f = \<lfloor>q\<rfloor>; r = q - of_int f
      in if r < 1 / 2 then f else if 1 / 2 < r then f + 1 else if even f then f else f + 1)"

text \<open>
  Rounding a real to binary32: a significand of 24 bits, so the spacing of the
  representable numbers around \<open>x\<close> is \<open>2\<close> to the power \<open>e - 23\<close> for the binary exponent
  \<open>e\<close> of \<open>x\<close>, and never finer than that of the smallest normal exponent \<open>-126\<close>.
  Overflow to infinity is left out: no value computed here exceeds \<open>2\<^sup>3\<^sup>2\<close>.
\<close>

definition binary32 :: "real \<Rightarrow> real" where
  "binary32 x =
     (if x = 0 then 0
      else let e = max \<lfloor>log 2 \<bar>x\<bar>\<rfloor> (- 126);
               ulp = 2 powr (of_int e - 23)
           in of_int (round_even (x / ulp)) * ulp)"

text \<open>The value of a float expression; \<open>1000.0f\<close> is exactly 1000.\<close>

fun fval :: "cfloat \<Rightarrow> real" where
  "fval F_zero = 0"
| "fval (F_of_uint u) = binary32 (real (unat u))"
| "fval (F_div_1000 x) = binary32 (fval x / 1000)"

record GPUInfo =
  name :: string
  vendor :: string
  driver_version :: string
  memory_total :: uint
  memory_used :: uint
  memory_free :: uint
  utilization :: cfloat
  temperature :: cfloat
  power_usage :: cfloat
  clock_core :: cfloat
  clock_memory :: cfloat

text \<open>The local structs that \<open>getGPUInfo\<close> and \<open>getAllGPUInfo\<close> hand to the library.\<close>

record NVMLMemoryInfo =
  mem_total :: ulonglong
  mem_free :: ulonglong
  mem_used :: ulonglong

record NVMLUtilizationRates =
  util_gpu :: uint
  util_memory :: uint

text \<open>The function pointer types declared in \<open>NVIDIA_GPUMonitor\<close>.\<close>

type_synonym nvmlInit_t = "unit \<Rightarrow> int"
type_synonym nvmlShutdown_t = "unit \<Rightarrow> int"
type_synonym nvmlDeviceGetCount_t = "uint \<Rightarrow> int \<times> uint"
  \<comment> \<open>old content of \<open>*count\<close> to status and new content\<close>
type_synonym nvmlDeviceGetHandleByIndex_t = "uint \<Rightarrow> int \<times> nvml_device"
type_synonym nvmlDeviceGetName_t = "nvml_device \<Rightarrow> uint \<Rightarrow> int \<times> string"
type_synonym nvmlDeviceGetMemoryInfo_t = "nvml_device \<Rightarrow> int \<times> NVMLMemoryInfo"
type_synonym nvmlDeviceGetUtilizationRates_t = "nvml_device \<Rightarrow> int \<times> NVMLUtilizationRates"
type_synonym nvmlDeviceGetTemperature_t = "nvml_device \<Rightarrow> int \<Rightarrow> int \<times> uint"
type_synonym nvmlDeviceGetPowerUsage_t = "nvml_device \<Rightarrow> int \<times> uint"
type_synonym nvmlDeviceGetClockInfo_t = "nvml_device \<Rightarrow> int \<Rightarrow> int \<times> uint"
type_synonym nvmlSystemGetDriverVersion_t = "uint \<Rightarrow> int \<times> string"

record NVIDIA_GPUMonitor =
  nvml_lib :: "lib_handle option"
  nvmlInit :: "nvmlInit_t option"
  nvmlShutdown :: "nvmlShutdown_t option"
  nvmlDeviceGetCount :: "nvmlDeviceGetCount_t option"
  nvmlDeviceGetHandleByIndex :: "nvmlDeviceGetHandleByIndex_t option"
  nvmlDeviceGetName :: "nvmlDeviceGetName_t option"
  nvmlDeviceGetMemoryInfo :: "nvmlDeviceGetMemoryInfo_t option"
  nvmlDeviceGetUtilizationRates :: "nvmlDeviceGetUtilizationRates_t option"
  nvmlDeviceGetTemperature :: "nvmlDeviceGetTemperature_t option"
  nvmlDeviceGetPowerUsage :: "nvmlDeviceGetPowerUsage_t option"
  nvmlDeviceGetClockInfo :: "nvmlDeviceGetClockInfo_t option"
  nvmlSystemGetDriverVersion :: "nvmlSystemGetDriverVersion_t option"
  is_initialized :: bool
  device_count :: uint

text \<open>The constructor: null handle, null pointers, not initialized, no devices.\<close>

definition NVIDIA_GPUMonitor_new :: NVIDIA_GPUMonitor where
  "NVIDIA_GPUMonitor_new =
     \<lparr> nvml_lib = None, nvmlInit = None, nvmlShutdown = None, nvmlDeviceGetCount = None,
       nvmlDeviceGetHandleByIndex = None, nvmlDeviceGetName = None,
       nvmlDeviceGetMemoryInfo = None, nvmlDeviceGetUtilizationRates = None,
       nvmlDeviceGetTemperature = None, nvmlDeviceGetPowerUsage = None,
       nvmlDeviceGetClockInfo = None, nvmlSystemGetDriverVersion = None,
       is_initialized = False, device_count = 0 \<rparr>"

section \<open>The Nvidia queries\<close>

text \<open>
  One pass through the body of the \<open>for\<close> loop of \<open>NVIDIA_GPUMonitor::getAllGPUInfo\<close>
  for index \<open>i\<close>: it ends in a \<open>continue\<close> or in \<open>gpu_info_list.push_back(gpu_info)\<close>.
  The calls are made in the order of the source, each through the pointer the monitor holds.
\<close>

datatype iteration = Continue | PushBack GPUInfo

definition getAllGPUInfo_body :: "NVIDIA_GPUMonitor \<Rightarrow> uint \<Rightarrow> iteration option" where
  "getAllGPUInfo_body m i = do {
     getHandle \<leftarrow> nvmlDeviceGetHandleByIndex m;
     let (rc_handle, device) = getHandle i;
     if rc_handle \<noteq> 0 then Some Continue else do {
       getName \<leftarrow> nvmlDeviceGetName m;
       let (rc_name, name_buf) = getName device 256;
       if rc_name \<noteq> 0 then Some Continue else do {
         getDriver \<leftarrow> nvmlSystemGetDriverVersion m;
         let (rc_driver, version_buf) = getDriver 256;
         let driver = (if rc_driver \<noteq> 0 then ''Unknown'' else version_buf);
         getMemory \<leftarrow> nvmlDeviceGetMemoryInfo m;
         let (rc_memory, memory_info) = getMemory device;
         if rc_memory \<noteq> 0 then Some Continue else do {
           getRates \<leftarrow> nvmlDeviceGetUtilizationRates m;
           let (rc_rates, rates) = getRates device;
           if rc_rates \<noteq> 0 then Some Continue else do {
             getTemp \<leftarrow> nvmlDeviceGetTemperature m;
             let (rc_temp, temp) = getTemp device 0;
             if rc_temp \<noteq> 0 then Some Continue else do {
               getPower \<leftarrow> nvmlDeviceGetPowerUsage m;
               let (rc_power, power) = getPower device;
               getClock \<leftarrow> nvmlDeviceGetClockInfo m;
               let (rc_core, core) = getClock device 0;
               getClock' \<leftarrow> nvmlDeviceGetClockInfo m;
               let (rc_mclk, mclk) = getClock' device 1;
               Some (PushBack
                 \<lparr> name = name_buf,
                   vendor = ''NVIDIA'',
                   driver_version = driver,
                   memory_total = ucast (mem_total memory_info div (1024 * 1024)),
                   memory_used = ucast (mem_used memory_info div (1024 * 1024)),
                   memory_free = ucast (mem_free memory_info div (1024 * 1024)),
                   utilization = F_of_uint (util_gpu rates),
                   temperature = F_of_uint temp,
                   power_usage =
                     (if rc_power \<noteq> 0 then F_zero else F_div_1000 (F_of_uint power)),
                   clock_core = (if rc_core \<noteq> 0 then F_zero else F_of_uint core),
                   clock_memory = (if rc_mclk \<noteq> 0 then F_zero else F_of_uint mclk) \<rparr>)
             }
           }
         }
       }
     }
   }"

text \<open>
  The loop \<open>for (unsigned int i = 0; i < device_count; ++i)\<close>, from index \<open>i\<close> on, with
  the list built so far. \<open>++i\<close> is 32-bit addition.
\<close>

function getAllGPUInfo_loop ::
  "NVIDIA_GPUMonitor \<Rightarrow> uint \<Rightarrow> GPUInfo list \<Rightarrow> GPUInfo list option" where
  "getAllGPUInfo_loop m i gpu_info_list =
     (if i < device_count m then
        (case getAllGPUInfo_body m i of
           None \<Rightarrow> None
         | Some Continue \<Rightarrow> getAllGPUInfo_loop m (i + 1) gpu_info_list
         | Some (PushBack gpu_info) \<Rightarrow> getAllGPUInfo_loop m (i + 1) (gpu_info_list @ [gpu_info]))
      else Some gpu_info_list)"
  by pat_completeness auto
termination
proof -
  have step: "unat n - unat (i + 1) < unat n - unat i" if "i < n" for i n :: uint
  proof -
    from that have "unat i < unat n" by (simp add: word_less_nat_alt)
    moreover have "unat n < 2 ^ 32" using unsigned_less [of n, where 'a = nat] by simp
    ultimately show ?thesis by (simp add: unat_word_ariths)
  qed
  show ?thesis
    by (relation "measure (\<lambda>(m, i, _). unat (device_count m) - unat i)")
      (simp_all add: step)
qed

definition getAllGPUInfo ::
  "NVIDIA_GPUMonitor \<Rightarrow> GPUInfo list \<Rightarrow> (bool \<times> GPUInfo list) option" where
  "getAllGPUInfo m gpu_info_list =
     (if \<not> is_initialized m \<or> device_count m = 0 then Some (False, gpu_info_list)
      else do {
        gpu_info_list' \<leftarrow> getAllGPUInfo_loop m 0 gpu_info_list;
        Some (gpu_info_list' \<noteq> [], gpu_info_list')
      })"

text \<open>
  \<open>NVIDIA_GPUMonitor::getGPUInfo\<close>: the same fetches for index 0, written into the
  caller's record as they succeed; a failing core fetch returns false and leaves what was
  written before it.
\<close>

definition getGPUInfo :: "NVIDIA_GPUMonitor \<Rightarrow> GPUInfo \<Rightarrow> (bool \<times> GPUInfo) option" where
  "getGPUInfo m gpu_info =
     (if \<not> is_initialized m \<or> device_count m = 0 then Some (False, gpu_info)
      else do {
        getHandle \<leftarrow> nvmlDeviceGetHandleByIndex m;
        let (rc_handle, device) = getHandle 0;
        if rc_handle \<noteq> 0 then Some (False, gpu_info) else do {
          getName \<leftarrow> nvmlDeviceGetName m;
          let (rc_name, name_buf) = getName device 256;
          if rc_name \<noteq> 0 then Some (False, gpu_info) else do {
            let g1 = gpu_info\<lparr>name := name_buf, vendor := ''NVIDIA''\<rparr>;
            getDriver \<leftarrow> nvmlSystemGetDriverVersion m;
            let (rc_driver, version_buf) = getDriver 256;
            let g2 = g1\<lparr>driver_version :=
                       (if rc_driver \<noteq> 0 then ''Unknown'' else version_buf)\<rparr>;
            getMemory \<leftarrow> nvmlDeviceGetMemoryInfo m;
            let (rc_memory, memory_info) = getMemory device;
            if rc_memory \<noteq> 0 then Some (False, g2) else do {
              let g3 = g2\<lparr>memory_total := ucast (mem_total memory_info div (1024 * 1024)),
                          memory_used := ucast (mem_used memory_info div (1024 * 1024)),
                          memory_free := ucast (mem_free memory_info div (1024 * 1024))\<rparr>;
              getRates \<leftarrow> nvmlDeviceGetUtilizationRates m;
              let (rc_rates, rates) = getRates device;
              if rc_rates \<noteq> 0 then Some (False, g3) else do {
                let g4 = g3\<lparr>utilization := F_of_uint (util_gpu rates)\<rparr>;
                getTemp \<leftarrow> nvmlDeviceGetTemperature m;
                let (rc_temp, temp) = getTemp device 0;
                if rc_temp \<noteq> 0 then Some (False, g4) else do {
                  let g5 = g4\<lparr>temperature := F_of_uint temp\<rparr>;
                  getPower \<leftarrow> nvmlDeviceGetPowerUsage m;
                  let (rc_power, power) = getPower device;
                  let g6 = g5\<lparr>power_usage :=
                             (if rc_power \<noteq> 0 then F_zero else F_div_1000 (F_of_uint power))\<rparr>;
                  getClock \<leftarrow> nvmlDeviceGetClockInfo m;
                  let (rc_core, core) = getClock device 0;
                  let g7 = g6\<lparr>clock_core :=
                             (if rc_core \<noteq> 0 then F_zero else F_of_uint core)\<rparr>;
                  getClock' \<leftarrow> nvmlDeviceGetClockInfo m;
                  let (rc_mclk, mclk) = getClock' device 1;
                  Some (True, g7\<lparr>clock_memory :=
                                  (if rc_mclk \<noteq> 0 then F_zero else F_of_uint mclk)\<rparr>)
                }
              }
            }
          }
        }
      })"

section \<open>Binding the vendor library\<close>

text \<open>
  The host is what the operating system and the vendor library answer: which library
  paths load (\<open>dlopen\<close>, or \<open>LoadLibrary\<close> under \<open>_WIN32\<close>) and, for a loaded library, which
  of the eleven entry points resolve and to which functions (\<open>dlsym\<close>, \<open>GetProcAddress\<close>).
\<close>

record nvml_exports =
  sym_nvmlInit :: "nvmlInit_t option"
  sym_nvmlShutdown :: "nvmlShutdown_t option"
  sym_nvmlDeviceGetCount :: "nvmlDeviceGetCount_t option"
  sym_nvmlDeviceGetHandleByIndex :: "nvmlDeviceGetHandleByIndex_t option"
  sym_nvmlDeviceGetName :: "nvmlDeviceGetName_t option"
  sym_nvmlDeviceGetMemoryInfo :: "nvmlDeviceGetMemoryInfo_t option"
  sym_nvmlDeviceGetUtilizationRates :: "nvmlDeviceGetUtilizationRates_t option"
  sym_nvmlDeviceGetTemperature :: "nvmlDeviceGetTemperature_t option"
  sym_nvmlDeviceGetPowerUsage :: "nvmlDeviceGetPowerUsage_t option"
  sym_nvmlDeviceGetClockInfo :: "nvmlDeviceGetClockInfo_t option"
  sym_nvmlSystemGetDriverVersion :: "nvmlSystemGetDriverVersion_t option"

record host =
  win32 :: bool
  LoadLibrary :: "string \<Rightarrow> lib_handle option"
  GetProcAddress :: "lib_handle \<Rightarrow> nvml_exports"

text \<open>
  What an operation does to the process beyond its own object: library references taken
  and given back, and the vendor library switched on and off.
\<close>

datatype library_call =
    Opened lib_handle         \<comment> \<open>a successful \<open>dlopen\<close> / \<open>LoadLibrary\<close>\<close>
  | Closed lib_handle         \<comment> \<open>\<open>dlclose\<close> / \<open>FreeLibrary\<close>\<close>
  | Called_nvmlInit
  | Called_nvmlShutdown

definition system32_path :: string where
  "system32_path = ''C:'' @ [CHR 0x5C] @ ''Windows'' @ [CHR 0x5C] @ ''System32''
     @ [CHR 0x5C] @ ''nvidia-ml.dll''"

definition load_nvml :: "host \<Rightarrow> lib_handle option" where
  "load_nvml h =
     (if win32 h then
        (case LoadLibrary h ''nvidia-ml.dll'' of
           None \<Rightarrow> LoadLibrary h system32_path
         | Some l \<Rightarrow> Some l)
      else LoadLibrary h ''libnvidia-ml.so.1'')"

definition NVIDIA_initialize ::
  "host \<Rightarrow> NVIDIA_GPUMonitor \<Rightarrow> (bool \<times> NVIDIA_GPUMonitor \<times> library_call list) option" where
  "NVIDIA_initialize h m =
     (case load_nvml h of
        None \<Rightarrow> Some (False, m\<lparr>nvml_lib := None\<rparr>, [])
      | Some l \<Rightarrow>
          let e = GetProcAddress h l;
              m1 = m\<lparr> nvml_lib := Some l,
                     nvmlInit := sym_nvmlInit e,
                     nvmlShutdown := sym_nvmlShutdown e,
                     nvmlDeviceGetCount := sym_nvmlDeviceGetCount e,
                     nvmlDeviceGetHandleByIndex := sym_nvmlDeviceGetHandleByIndex e,
                     nvmlDeviceGetName := sym_nvmlDeviceGetName e,
                     nvmlDeviceGetMemoryInfo := sym_nvmlDeviceGetMemoryInfo e,
                     nvmlDeviceGetUtilizationRates := sym_nvmlDeviceGetUtilizationRates e,
                     nvmlDeviceGetTemperature := sym_nvmlDeviceGetTemperature e,
                     nvmlDeviceGetPowerUsage := sym_nvmlDeviceGetPowerUsage e,
                     nvmlDeviceGetClockInfo := sym_nvmlDeviceGetClockInfo e,
                     nvmlSystemGetDriverVersion := sym_nvmlSystemGetDriverVersion e \<rparr>
          in
          if nvmlInit m1 = None \<or> nvmlShutdown m1 = None \<or> nvmlDeviceGetCount m1 = None
             \<or> nvmlDeviceGetHandleByIndex m1 = None \<or> nvmlDeviceGetName m1 = None
             \<or> nvmlDeviceGetMemoryInfo m1 = None \<or> nvmlDeviceGetUtilizationRates m1 = None
             \<or> nvmlDeviceGetTemperature m1 = None \<or> nvmlDeviceGetPowerUsage m1 = None
             \<or> nvmlDeviceGetClockInfo m1 = None \<or> nvmlSystemGetDriverVersion m1 = None
          then Some (False, m1, [Opened l])
          else do {
            init \<leftarrow> nvmlInit m1;
            if init () \<noteq> 0 then Some (False, m1, [Opened l, Called_nvmlInit])
            else do {
              getCount \<leftarrow> nvmlDeviceGetCount m1;
              let (rc_count, count) = getCount (device_count m1);
              let m2 = m1\<lparr>device_count := count\<rparr>;
              if rc_count \<noteq> 0 then do {
                shutdown \<leftarrow> nvmlShutdown m2;
                let _ = shutdown ();
                Some (False, m2, [Opened l, Called_nvmlInit, Called_nvmlShutdown])
              }
              else Some (True, m2\<lparr>is_initialized := True\<rparr>, [Opened l, Called_nvmlInit])
            }
          })"

text \<open>\<open>NVIDIA_GPUMonitor::cleanup\<close>; the destructor calls it and nothing else.\<close>

definition NVIDIA_cleanup ::
  "NVIDIA_GPUMonitor \<Rightarrow> (NVIDIA_GPUMonitor \<times> library_call list) option" where
  "NVIDIA_cleanup m = do {
     log1 \<leftarrow> (if is_initialized m \<and> nvmlShutdown m \<noteq> None
              then do { shutdown \<leftarrow> nvmlShutdown m; let _ = shutdown (); Some [Called_nvmlShutdown] }
              else Some []);
     let (m1, log2) = (case nvml_lib m of
                         Some l \<Rightarrow> (m\<lparr>nvml_lib := None\<rparr>, [Closed l])
                       | None \<Rightarrow> (m, []));
     Some (m1\<lparr>is_initialized := False, device_count := 0\<rparr>, log1 @ log2)
   }"

section \<open>The AMD and Intel backends\<close>

record AMD_GPUMonitor =
  amd_is_initialized :: bool

record Intel_GPUMonitor =
  intel_is_initialized :: bool

definition AMD_GPUMonitor_new :: AMD_GPUMonitor where
  "AMD_GPUMonitor_new = \<lparr> amd_is_initialized = False \<rparr>"

definition Intel_GPUMonitor_new :: Intel_GPUMonitor where
  "Intel_GPUMonitor_new = \<lparr> intel_is_initialized = False \<rparr>"

definition AMD_initialize :: "AMD_GPUMonitor \<Rightarrow> bool \<times> AMD_GPUMonitor" where
  "AMD_initialize a = (False, a)"

definition Intel_initialize :: "Intel_GPUMonitor \<Rightarrow> bool \<times> Intel_GPUMonitor" where
  "Intel_initialize a = (False, a)"

definition AMD_cleanup :: "AMD_GPUMonitor \<Rightarrow> AMD_GPUMonitor" where
  "AMD_cleanup a = a\<lparr>amd_is_initialized := False\<rparr>"

definition Intel_cleanup :: "Intel_GPUMonitor \<Rightarrow> Intel_GPUMonitor" where
  "Intel_cleanup a = a\<lparr>intel_is_initialized := False\<rparr>"

section \<open>The manager\<close>

text \<open>
  \<open>IGPUMonitor*\<close>: the manager owns each object it points to, so the vector of pointers is
  a list of the objects, tagged with their class. The virtual calls dispatch on the tag.
\<close>

datatype IGPUMonitor =
    Nvidia NVIDIA_GPUMonitor
  | AMD AMD_GPUMonitor
  | Intel Intel_GPUMonitor

fun IGPUMonitor_getAllGPUInfo ::
  "IGPUMonitor \<Rightarrow> GPUInfo list \<Rightarrow> (bool \<times> GPUInfo list) option" where
  "IGPUMonitor_getAllGPUInfo (Nvidia m) gpu_info_list = getAllGPUInfo m gpu_info_list"
| "IGPUMonitor_getAllGPUInfo (AMD a) gpu_info_list = Some (False, gpu_info_list)"
| "IGPUMonitor_getAllGPUInfo (Intel a) gpu_info_list = Some (False, gpu_info_list)"

fun IGPUMonitor_cleanup :: "IGPUMonitor \<Rightarrow> (IGPUMonitor \<times> library_call list) option" where
  "IGPUMonitor_cleanup (Nvidia m) = do { (m', calls) \<leftarrow> NVIDIA_cleanup m; Some (Nvidia m', calls) }"
| "IGPUMonitor_cleanup (AMD a) = Some (AMD (AMD_cleanup a), [])"
| "IGPUMonitor_cleanup (Intel a) = Some (Intel (Intel_cleanup a), [])"

text \<open>\<open>delete monitor\<close>: the destructor runs \<open>cleanup()\<close> and the object is gone.\<close>

definition IGPUMonitor_delete :: "IGPUMonitor \<Rightarrow> library_call list option" where
  "IGPUMonitor_delete mon = do { (_, calls) \<leftarrow> IGPUMonitor_cleanup mon; Some calls }"

record GPUMonitorManager =
  gpu_monitors :: "IGPUMonitor list"
  manager_is_initialized :: bool

definition GPUMonitorManager_new :: GPUMonitorManager where
  "GPUMonitorManager_new = \<lparr> gpu_monitors = [], manager_is_initialized = False \<rparr>"

text \<open>
  \<open>if (monitor->initialize()) gpu_monitors.push_back(monitor); else delete monitor;\<close>
\<close>

definition push_back_or_delete ::
  "bool \<Rightarrow> IGPUMonitor \<Rightarrow> IGPUMonitor list \<Rightarrow> (IGPUMonitor list \<times> library_call list) option" where
  "push_back_or_delete ok mon monitors =
     (if ok then Some (monitors @ [mon], [])
      else do { calls \<leftarrow> IGPUMonitor_delete mon; Some (monitors, calls) })"

definition Manager_initialize ::
  "host \<Rightarrow> GPUMonitorManager \<Rightarrow> (bool \<times> GPUMonitorManager \<times> library_call list) option" where
  "Manager_initialize h mgr = do {
     (ok_nvidia, nvidia_monitor, log1) \<leftarrow> NVIDIA_initialize h NVIDIA_GPUMonitor_new;
     (monitors1, log2) \<leftarrow> push_back_or_delete ok_nvidia (Nvidia nvidia_monitor) (gpu_monitors mgr);
     let (ok_amd, amd_monitor) = AMD_initialize AMD_GPUMonitor_new;
     (monitors2, log3) \<leftarrow> push_back_or_delete ok_amd (AMD amd_monitor) monitors1;
     let (ok_intel, intel_monitor) = Intel_initialize Intel_GPUMonitor_new;
     (monitors3, log4) \<leftarrow> push_back_or_delete ok_intel (Intel intel_monitor) monitors2;
     Some (monitors3 \<noteq> [],
           mgr\<lparr>gpu_monitors := monitors3, manager_is_initialized := (monitors3 \<noteq> [])\<rparr>,
           log1 @ log2 @ log3 @ log4)
   }"

fun Manager_getAllGPUInfo_loop :: "IGPUMonitor list \<Rightarrow> GPUInfo list \<Rightarrow> GPUInfo list option" where
  "Manager_getAllGPUInfo_loop [] gpu_info_list = Some gpu_info_list"
| "Manager_getAllGPUInfo_loop (monitor # rest) gpu_info_list = do {
     (ok, temp_list) \<leftarrow> IGPUMonitor_getAllGPUInfo monitor [];
     Manager_getAllGPUInfo_loop rest (if ok then gpu_info_list @ temp_list else gpu_info_list)
   }"

definition Manager_getAllGPUInfo ::
  "GPUMonitorManager \<Rightarrow> GPUInfo list \<Rightarrow> (bool \<times> GPUInfo list) option" where
  "Manager_getAllGPUInfo mgr gpu_info_list =
     (if \<not> manager_is_initialized mgr then Some (False, gpu_info_list)
      else do {
        gpu_info_list' \<leftarrow> Manager_getAllGPUInfo_loop (gpu_monitors mgr) gpu_info_list;
        Some (gpu_info_list' \<noteq> [], gpu_info_list')
      })"

fun Manager_cleanup_loop :: "IGPUMonitor list \<Rightarrow> library_call list option" where
  "Manager_cleanup_loop [] = Some []"
| "Manager_cleanup_loop (monitor # rest) = do {
     (monitor', log1) \<leftarrow> IGPUMonitor_cleanup monitor;
     log2 \<leftarrow> IGPUMonitor_delete monitor';
     log3 \<leftarrow> Manager_cleanup_loop rest;
     Some (log1 @ log2 @ log3)
   }"

definition Manager_cleanup ::
  "GPUMonitorManager \<Rightarrow> (GPUMonitorManager \<times> library_call list) option" where
  "Manager_cleanup mgr = do {
     calls \<leftarrow> Manager_cleanup_loop (gpu_monitors mgr);
     Some (mgr\<lparr>gpu_monitors := [], manager_is_initialized := False\<rparr>, calls)
   }"

section \<open>Vocabulary of the statements\<close>

text \<open>
  The function table is complete when all eleven pointers are non-null: the condition
  \<open>initialize\<close> checks before it goes on.
\<close>

definition fully_bound :: "NVIDIA_GPUMonitor \<Rightarrow> bool" where
  "fully_bound m \<longleftrightarrow>
     nvmlInit m \<noteq> None \<and> nvmlShutdown m \<noteq> None \<and> nvmlDeviceGetCount m \<noteq> None
     \<and> nvmlDeviceGetHandleByIndex m \<noteq> None \<and> nvmlDeviceGetName m \<noteq> None
     \<and> nvmlDeviceGetMemoryInfo m \<noteq> None \<and> nvmlDeviceGetUtilizationRates m \<noteq> None
     \<and> nvmlDeviceGetTemperature m \<noteq> None \<and> nvmlDeviceGetPowerUsage m \<noteq> None
     \<and> nvmlDeviceGetClockInfo m \<noteq> None \<and> nvmlSystemGetDriverVersion m \<noteq> None"

text \<open>The indices \<open>i, i + 1, ..., n - 1\<close> in ascending order.\<close>

definition index_range :: "uint \<Rightarrow> uint \<Rightarrow> uint list" where
  "index_range i n = map of_nat [unat i ..< unat n]"

text \<open>What the loop body appends for index \<open>i\<close>: one record or nothing.\<close>

definition emitted :: "NVIDIA_GPUMonitor \<Rightarrow> uint \<Rightarrow> GPUInfo list" where
  "emitted m i = (case getAllGPUInfo_body m i of Some (PushBack g) \<Rightarrow> [g] | _ \<Rightarrow> [])"

text \<open>Handle enumeration succeeds at index \<open>i\<close>.\<close>

definition handle_succeeds :: "NVIDIA_GPUMonitor \<Rightarrow> uint \<Rightarrow> bool" where
  "handle_succeeds m i =
     (case nvmlDeviceGetHandleByIndex m of
        None \<Rightarrow> False
      | Some getHandle \<Rightarrow> fst (getHandle i) = 0)"

text \<open>
  The name, memory-info, utilization and temperature fetches succeed for the device that
  handle enumeration returns at index \<open>i\<close>.
\<close>

definition other_core_fetches_succeed :: "NVIDIA_GPUMonitor \<Rightarrow> uint \<Rightarrow> bool" where
  "other_core_fetches_succeed m i =
     (case (nvmlDeviceGetHandleByIndex m, nvmlDeviceGetName m, nvmlDeviceGetMemoryInfo m,
            nvmlDeviceGetUtilizationRates m, nvmlDeviceGetTemperature m) of
        (Some getHandle, Some getName, Some getMemory, Some getRates, Some getTemp) \<Rightarrow>
          (let d = snd (getHandle i)
           in fst (getName d 256) = 0 \<and> fst (getMemory d) = 0
              \<and> fst (getRates d) = 0 \<and> fst (getTemp d 0) = 0)
      | _ \<Rightarrow> False)"

subsection \<open>Concrete monitors\<close>

text \<open>
  An initialized monitor over a library with \<open>n\<close> devices: handle enumeration fails at the
  indices listed in \<open>failing\<close>, the temperature fetch returns \<open>temp_rc\<close>, the driver-version,
  power and clock fetches return \<open>extra_rc\<close>, and every device reports \<open>total_bytes\<close> of
  memory, 3145727 bytes free and 1048576 bytes used.
\<close>

definition sample_monitor ::
  "uint \<Rightarrow> uint list \<Rightarrow> int \<Rightarrow> int \<Rightarrow> ulonglong \<Rightarrow> NVIDIA_GPUMonitor" where
  "sample_monitor n failing temp_rc extra_rc total_bytes =
     \<lparr> nvml_lib = Some 1,
       nvmlInit = Some (\<lambda>_. 0),
       nvmlShutdown = Some (\<lambda>_. 0),
       nvmlDeviceGetCount = Some (\<lambda>_. (0, n)),
       nvmlDeviceGetHandleByIndex = Some (\<lambda>i. (if i \<in> set failing then 1 else 0, unat i)),
       nvmlDeviceGetName = Some (\<lambda>d len.
         (0, if d = 0 then ''GPU0'' else if d = 1 then ''GPU1'' else ''GPU2'')),
       nvmlDeviceGetMemoryInfo = Some (\<lambda>d.
         (0, \<lparr> mem_total = total_bytes, mem_free = 3145727, mem_used = 1048576 \<rparr>)),
       nvmlDeviceGetUtilizationRates = Some (\<lambda>d. (0, \<lparr> util_gpu = 50, util_memory = 10 \<rparr>)),
       nvmlDeviceGetTemperature = Some (\<lambda>d sensor. (temp_rc, 60)),
       nvmlDeviceGetPowerUsage = Some (\<lambda>d. (extra_rc, 125000)),
       nvmlDeviceGetClockInfo = Some (\<lambda>d domain. (extra_rc, if domain = 0 then 1500 else 7000)),
       nvmlSystemGetDriverVersion = Some (\<lambda>len. (extra_rc, ''535.54'')),
       is_initialized = True,
       device_count = n \<rparr>"

text \<open>The record such a device yields when every fetch succeeds and it has 1 GiB.\<close>

definition sample_record :: "string \<Rightarrow> GPUInfo" where
  "sample_record n =
     \<lparr> name = n, vendor = ''NVIDIA'', driver_version = ''535.54'',
       memory_total = 1024, memory_used = 1, memory_free = 2,
       utilization = F_of_uint 50, temperature = F_of_uint 60,
       power_usage = F_div_1000 (F_of_uint 125000),
       clock_core = F_of_uint 1500, clock_memory = F_of_uint 7000 \<rparr>"

subsection \<open>The host and the states a monitor reaches on it\<close>

text \<open>The library exports all eleven entry points.\<close>

definition exports_complete :: "nvml_exports \<Rightarrow> bool" where
  "exports_complete e \<longleftrightarrow>
     sym_nvmlInit e \<noteq> None \<and> sym_nvmlShutdown e \<noteq> None \<and> sym_nvmlDeviceGetCount e \<noteq> None
     \<and> sym_nvmlDeviceGetHandleByIndex e \<noteq> None \<and> sym_nvmlDeviceGetName e \<noteq> None
     \<and> sym_nvmlDeviceGetMemoryInfo e \<noteq> None \<and> sym_nvmlDeviceGetUtilizationRates e \<noteq> None
     \<and> sym_nvmlDeviceGetTemperature e \<noteq> None \<and> sym_nvmlDeviceGetPowerUsage e \<noteq> None
     \<and> sym_nvmlDeviceGetClockInfo e \<noteq> None \<and> sym_nvmlSystemGetDriverVersion e \<noteq> None"

text \<open>The monitor's eleven pointers are what \<open>dlsym\<close> returned for the exports \<open>e\<close>.\<close>

definition holds_exports :: "NVIDIA_GPUMonitor \<Rightarrow> nvml_exports \<Rightarrow> bool" where
  "holds_exports m e \<longleftrightarrow>
     nvmlInit m = sym_nvmlInit e \<and> nvmlShutdown m = sym_nvmlShutdown e
     \<and> nvmlDeviceGetCount m = sym_nvmlDeviceGetCount e
     \<and> nvmlDeviceGetHandleByIndex m = sym_nvmlDeviceGetHandleByIndex e
     \<and> nvmlDeviceGetName m = sym_nvmlDeviceGetName e
     \<and> nvmlDeviceGetMemoryInfo m = sym_nvmlDeviceGetMemoryInfo e
     \<and> nvmlDeviceGetUtilizationRates m = sym_nvmlDeviceGetUtilizationRates e
     \<and> nvmlDeviceGetTemperature m = sym_nvmlDeviceGetTemperature e
     \<and> nvmlDeviceGetPowerUsage m = sym_nvmlDeviceGetPowerUsage e
     \<and> nvmlDeviceGetClockInfo m = sym_nvmlDeviceGetClockInfo e
     \<and> nvmlSystemGetDriverVersion m = sym_nvmlSystemGetDriverVersion e"

text \<open>The three components of what \<open>initialize\<close> returns.\<close>

definition initialize_result :: "host \<Rightarrow> NVIDIA_GPUMonitor \<Rightarrow> bool option" where
  "initialize_result h m = map_option fst (NVIDIA_initialize h m)"

definition initialize_state :: "host \<Rightarrow> NVIDIA_GPUMonitor \<Rightarrow> NVIDIA_GPUMonitor" where
  "initialize_state h m = (case NVIDIA_initialize h m of Some (_, m', _) \<Rightarrow> m' | None \<Rightarrow> m)"

definition initialize_log :: "host \<Rightarrow> NVIDIA_GPUMonitor \<Rightarrow> library_call list" where
  "initialize_log h m = (case NVIDIA_initialize h m of Some (_, _, calls) \<Rightarrow> calls | None \<Rightarrow> [])"

text \<open>How many of the eleven pointers are non-null.\<close>

definition resolved_count :: "NVIDIA_GPUMonitor \<Rightarrow> nat" where
  "resolved_count m = length (filter id
     [nvmlInit m \<noteq> None, nvmlShutdown m \<noteq> None, nvmlDeviceGetCount m \<noteq> None,
      nvmlDeviceGetHandleByIndex m \<noteq> None, nvmlDeviceGetName m \<noteq> None,
      nvmlDeviceGetMemoryInfo m \<noteq> None, nvmlDeviceGetUtilizationRates m \<noteq> None,
      nvmlDeviceGetTemperature m \<noteq> None, nvmlDeviceGetPowerUsage m \<noteq> None,
      nvmlDeviceGetClockInfo m \<noteq> None, nvmlSystemGetDriverVersion m \<noteq> None])"

text \<open>
  The states of a monitor on a host whose answers do not change: as constructed, and after
  any sequence of \<open>initialize()\<close> and \<open>cleanup()\<close> calls (the queries leave the monitor as
  it is).
\<close>

inductive nvidia_reachable :: "host \<Rightarrow> NVIDIA_GPUMonitor \<Rightarrow> bool" for h :: host where
  constructed: "nvidia_reachable h NVIDIA_GPUMonitor_new"
| initialized: "nvidia_reachable h m \<Longrightarrow> NVIDIA_initialize h m = Some (ok, m', calls)
    \<Longrightarrow> nvidia_reachable h m'"
| cleaned: "nvidia_reachable h m \<Longrightarrow> NVIDIA_cleanup m = Some (m', calls)
    \<Longrightarrow> nvidia_reachable h m'"

text \<open>
  A library for two devices that answers like \<open>sample_monitor\<close>; it lacks
  \<open>nvmlSystemGetDriverVersion\<close> unless \<open>has_driver_version\<close>, its \<open>nvmlInit\<close> returns
  \<open>init_rc\<close> and its \<open>nvmlDeviceGetCount\<close> returns \<open>count_rc\<close>, storing 2 on success.
  The host loads it as handle 7 from the default Linux name.
\<close>

definition sample_exports :: "bool \<Rightarrow> int \<Rightarrow> int \<Rightarrow> nvml_exports" where
  "sample_exports has_driver_version init_rc count_rc =
     \<lparr> sym_nvmlInit = Some (\<lambda>_. init_rc),
       sym_nvmlShutdown = Some (\<lambda>_. 0),
       sym_nvmlDeviceGetCount = Some (\<lambda>old. (count_rc, if count_rc = 0 then 2 else old)),
       sym_nvmlDeviceGetHandleByIndex = nvmlDeviceGetHandleByIndex (sample_monitor 2 [] 0 0 1073741824),
       sym_nvmlDeviceGetName = nvmlDeviceGetName (sample_monitor 2 [] 0 0 1073741824),
       sym_nvmlDeviceGetMemoryInfo = nvmlDeviceGetMemoryInfo (sample_monitor 2 [] 0 0 1073741824),
       sym_nvmlDeviceGetUtilizationRates =
         nvmlDeviceGetUtilizationRates (sample_monitor 2 [] 0 0 1073741824),
       sym_nvmlDeviceGetTemperature = nvmlDeviceGetTemperature (sample_monitor 2 [] 0 0 1073741824),
       sym_nvmlDeviceGetPowerUsage = nvmlDeviceGetPowerUsage (sample_monitor 2 [] 0 0 1073741824),
       sym_nvmlDeviceGetClockInfo = nvmlDeviceGetClockInfo (sample_monitor 2 [] 0 0 1073741824),
       sym_nvmlSystemGetDriverVersion =
         (if has_driver_version
          then nvmlSystemGetDriverVersion (sample_monitor 2 [] 0 0 1073741824) else None) \<rparr>"

definition sample_host :: "nvml_exports \<Rightarrow> host" where
  "sample_host e =
     \<lparr> win32 = False,
       LoadLibrary = (\<lambda>path. if path = ''libnvidia-ml.so.1'' then Some 7 else None),
       GetProcAddress = (\<lambda>l. e) \<rparr>"

subsection \<open>Backends and the states a manager reaches\<close>

text \<open>A backend in the state \<open>cleanup()\<close> leaves it in.\<close>

definition uninitialized_backend :: "IGPUMonitor \<Rightarrow> bool" where
  "uninitialized_backend mon =
     (case mon of
        Nvidia m \<Rightarrow> nvml_lib m = None \<and> \<not> is_initialized m \<and> device_count m = 0
      | AMD a \<Rightarrow> \<not> amd_is_initialized a
      | Intel a \<Rightarrow> \<not> intel_is_initialized a)"

text \<open>
  The three backends in the manager's order, each constructed and initialized: whether
  \<open>initialize()\<close> returned true, and the backend after the call.
\<close>

definition backend_attempts :: "host \<Rightarrow> (bool \<times> IGPUMonitor) list" where
  "backend_attempts h =
     [ (case NVIDIA_initialize h NVIDIA_GPUMonitor_new of
          Some (ok, m, _) \<Rightarrow> (ok, Nvidia m)
        | None \<Rightarrow> (False, Nvidia NVIDIA_GPUMonitor_new)),
       (fst (AMD_initialize AMD_GPUMonitor_new), AMD (snd (AMD_initialize AMD_GPUMonitor_new))),
       (fst (Intel_initialize Intel_GPUMonitor_new),
        Intel (snd (Intel_initialize Intel_GPUMonitor_new))) ]"

text \<open>What the manager's \<open>initialize\<close> returns, and the manager it leaves.\<close>

definition Manager_initialize_result :: "host \<Rightarrow> GPUMonitorManager \<Rightarrow> bool option" where
  "Manager_initialize_result h mgr = map_option fst (Manager_initialize h mgr)"

definition Manager_initialize_state :: "host \<Rightarrow> GPUMonitorManager \<Rightarrow> GPUMonitorManager" where
  "Manager_initialize_state h mgr =
     (case Manager_initialize h mgr of Some (_, mgr', _) \<Rightarrow> mgr' | None \<Rightarrow> mgr)"

text \<open>
  The states of a manager on a host whose answers do not change: as constructed, and after
  any sequence of \<open>initialize()\<close> and \<open>cleanup()\<close> calls.
\<close>

inductive manager_reachable :: "host \<Rightarrow> GPUMonitorManager \<Rightarrow> bool" for h :: host where
  constructed: "manager_reachable h GPUMonitorManager_new"
| initialized: "manager_reachable h mgr \<Longrightarrow> Manager_initialize h mgr = Some (ok, mgr', calls)
    \<Longrightarrow> manager_reachable h mgr'"
| cleaned: "manager_reachable h mgr \<Longrightarrow> Manager_cleanup mgr = Some (mgr', calls)
    \<Longrightarrow> manager_reachable h mgr'"

section \<open>The sweep as a list of per-index results\<close>

lemma index_range_step:
  assumes "i < n"
  shows "index_range i n = i # index_range (i + 1) n"
proof -
  from assms have lt: "unat i < unat n" by (simp add: word_less_nat_alt)
  moreover have "unat n < 2 ^ 32" using unsigned_less [of n, where 'a = nat] by simp
  ultimately have "unat (i + 1) = Suc (unat i)" by (simp add: unat_word_ariths)
  with lt show ?thesis by (simp add: index_range_def upt_conv_Cons)
qed

lemma index_range_done:
  assumes "\<not> i < n"
  shows "index_range i n = []"
  using assms by (simp add: index_range_def word_less_nat_alt)

lemma index_range_1: "index_range 0 1 = [0]"
  by (simp add: index_range_def)

lemma index_range_3: "index_range 0 3 = [0, 1, 2]"
  by (simp add: index_range_def upt_rec)

lemma body_total:
  assumes "fully_bound m"
  shows "\<exists>it. getAllGPUInfo_body m i = Some it"
  using assms
  by (auto simp: fully_bound_def getAllGPUInfo_body_def Let_def split: prod.splits)

lemma fully_bound_body_total: "fully_bound m \<Longrightarrow> \<forall>j. getAllGPUInfo_body m j \<noteq> None"
  using body_total by fastforce

lemma loop_emitted:
  assumes "\<forall>j. getAllGPUInfo_body m j \<noteq> None"
  shows "getAllGPUInfo_loop m i xs
       = Some (xs @ concat (map (emitted m) (index_range i (device_count m))))"
  using assms
proof (induction m i xs rule: getAllGPUInfo_loop.induct)
  case (1 m i xs)
  show ?case
  proof (cases "i < device_count m")
    case False
    then show ?thesis by (simp add: index_range_done)
  next
    case True
    from "1.prems" obtain it where it: "getAllGPUInfo_body m i = Some it" by blast
    show ?thesis
    proof (cases it)
      case Continue
      with True it "1.IH"(1) "1.prems" show ?thesis
        by (simp add: index_range_step emitted_def)
    next
      case (PushBack g)
      with True it "1.IH"(2) "1.prems" show ?thesis
        by (simp add: index_range_step emitted_def)
    qed
  qed
qed

lemma getAllGPUInfo_fully_bound:
  assumes "fully_bound m"
  shows "getAllGPUInfo m xs =
     Some (if is_initialized m \<and> device_count m \<noteq> 0
           then (xs @ concat (map (emitted m) (index_range 0 (device_count m))) \<noteq> [],
                 xs @ concat (map (emitted m) (index_range 0 (device_count m))))
           else (False, xs))"
  using loop_emitted [OF fully_bound_body_total [OF assms], of 0 xs]
  by (simp add: getAllGPUInfo_def)

lemma getAllGPUInfo_eq:
  assumes "is_initialized m \<longrightarrow> fully_bound m"
  shows "getAllGPUInfo m xs =
     Some (if is_initialized m \<and> device_count m \<noteq> 0
           then (xs @ concat (map (emitted m) (index_range 0 (device_count m))) \<noteq> [],
                 xs @ concat (map (emitted m) (index_range 0 (device_count m))))
           else (False, xs))"
proof (cases "is_initialized m")
  case True
  with assms have "fully_bound m" by simp
  then show ?thesis by (rule getAllGPUInfo_fully_bound)
next
  case False
  then show ?thesis by (simp add: getAllGPUInfo_def)
qed

lemma body_eq:
  assumes "nvmlDeviceGetHandleByIndex m = Some getHandle"
    and "nvmlDeviceGetName m = Some getName"
    and "nvmlSystemGetDriverVersion m = Some getDriver"
    and "nvmlDeviceGetMemoryInfo m = Some getMemory"
    and "nvmlDeviceGetUtilizationRates m = Some getRates"
    and "nvmlDeviceGetTemperature m = Some getTemp"
    and "nvmlDeviceGetPowerUsage m = Some getPower"
    and "nvmlDeviceGetClockInfo m = Some getClock"
    and "d = snd (getHandle i)"
  shows "getAllGPUInfo_body m i =
    Some (if fst (getHandle i) = 0 \<and> fst (getName d 256) = 0 \<and> fst (getMemory d) = 0
             \<and> fst (getRates d) = 0 \<and> fst (getTemp d 0) = 0
          then PushBack
            \<lparr> name = snd (getName d 256),
              vendor = ''NVIDIA'',
              driver_version =
                (if fst (getDriver 256) \<noteq> 0 then ''Unknown'' else snd (getDriver 256)),
              memory_total = ucast (mem_total (snd (getMemory d)) div 1048576),
              memory_used = ucast (mem_used (snd (getMemory d)) div 1048576),
              memory_free = ucast (mem_free (snd (getMemory d)) div 1048576),
              utilization = F_of_uint (util_gpu (snd (getRates d))),
              temperature = F_of_uint (snd (getTemp d 0)),
              power_usage = (if fst (getPower d) \<noteq> 0 then F_zero
                             else F_div_1000 (F_of_uint (snd (getPower d)))),
              clock_core = (if fst (getClock d 0) \<noteq> 0 then F_zero
                            else F_of_uint (snd (getClock d 0))),
              clock_memory = (if fst (getClock d 1) \<noteq> 0 then F_zero
                              else F_of_uint (snd (getClock d 1))) \<rparr>
          else Continue)"
  using assms by (simp add: getAllGPUInfo_body_def Let_def split: prod.splits)

lemma emitted_handle_fails: "\<not> handle_succeeds m i \<Longrightarrow> emitted m i = []"
  by (auto simp: handle_succeeds_def emitted_def getAllGPUInfo_body_def Let_def
      split: option.splits prod.splits iteration.splits)

lemma emitted_all_succeed:
  assumes "handle_succeeds m i" and "other_core_fetches_succeed m i" and "fully_bound m"
  shows "\<exists>g. getAllGPUInfo_body m i = Some (PushBack g) \<and> emitted m i = [g]"
  using assms
  by (auto simp: handle_succeeds_def other_core_fetches_succeed_def emitted_def fully_bound_def
      getAllGPUInfo_body_def Let_def split: option.splits prod.splits)

lemma concat_map_filter_empty:
  assumes "\<And>x. \<not> P x \<Longrightarrow> f x = []"
  shows "concat (map f (filter P xs)) = concat (map f xs)"
  using assms by (induction xs) auto

lemma list_all2_concat_singletons:
  assumes "\<forall>i \<in> set js. \<exists>g. R g i \<and> f i = [g]"
  shows "list_all2 R (concat (map f js)) js"
  using assms by (induction js) auto

subsection \<open>The sample monitors\<close>

lemma sample_fully_bound: "fully_bound (sample_monitor n failing trc erc tot)"
  by (simp add: fully_bound_def sample_monitor_def)

lemma sample_usable:
  "is_initialized (sample_monitor n failing trc erc tot)
     \<longrightarrow> fully_bound (sample_monitor n failing trc erc tot)"
  by (simp add: sample_fully_bound)

lemma sample_table:
  "nvmlDeviceGetHandleByIndex (sample_monitor n failing trc erc tot)
     = Some (\<lambda>i. (if i \<in> set failing then 1 else 0, unat i))"
  "nvmlDeviceGetName (sample_monitor n failing trc erc tot)
     = Some (\<lambda>d len. (0, if d = 0 then ''GPU0'' else if d = 1 then ''GPU1'' else ''GPU2''))"
  "nvmlSystemGetDriverVersion (sample_monitor n failing trc erc tot)
     = Some (\<lambda>len. (erc, ''535.54''))"
  "nvmlDeviceGetMemoryInfo (sample_monitor n failing trc erc tot)
     = Some (\<lambda>d. (0, \<lparr> mem_total = tot, mem_free = 3145727, mem_used = 1048576 \<rparr>))"
  "nvmlDeviceGetUtilizationRates (sample_monitor n failing trc erc tot)
     = Some (\<lambda>d. (0, \<lparr> util_gpu = 50, util_memory = 10 \<rparr>))"
  "nvmlDeviceGetTemperature (sample_monitor n failing trc erc tot) = Some (\<lambda>d sensor. (trc, 60))"
  "nvmlDeviceGetPowerUsage (sample_monitor n failing trc erc tot) = Some (\<lambda>d. (erc, 125000))"
  "nvmlDeviceGetClockInfo (sample_monitor n failing trc erc tot)
     = Some (\<lambda>d domain. (erc, if domain = 0 then 1500 else 7000))"
  by (simp_all add: sample_monitor_def)

lemma sample_state:
  "is_initialized (sample_monitor n failing trc erc tot)"
  "device_count (sample_monitor n failing trc erc tot) = n"
  by (simp_all add: sample_monitor_def)

section \<open>Per-device queries\<close>

text \<open>
  Claim C2. With the query pointers bound, the loop body emits a record for index \<open>i\<close>
  exactly when handle enumeration and the name, memory-info, utilization and temperature
  fetches all succeed for that index, and otherwise continues with the next index. A
  failing driver-version fetch puts \<open>''Unknown''\<close> into the record, a failing power fetch
  \<open>0.0\<close>, a failing core or memory clock fetch \<open>0.0\<close> into that clock alone; every other
  field is what its own fetch returned. The list the loop returns is the caller's list
  followed by what the body emits for the indices below \<open>device_count\<close>, in ascending order.
\<close>

theorem getAllGPUInfo_emits_iff_core_fetches_succeed:
  assumes "nvmlDeviceGetHandleByIndex m = Some getHandle"
    and "nvmlDeviceGetName m = Some getName"
    and "nvmlSystemGetDriverVersion m = Some getDriver"
    and "nvmlDeviceGetMemoryInfo m = Some getMemory"
    and "nvmlDeviceGetUtilizationRates m = Some getRates"
    and "nvmlDeviceGetTemperature m = Some getTemp"
    and "nvmlDeviceGetPowerUsage m = Some getPower"
    and "nvmlDeviceGetClockInfo m = Some getClock"
    and "d = snd (getHandle i)"
  shows "getAllGPUInfo_body m i =
    Some (if fst (getHandle i) = 0 \<and> fst (getName d 256) = 0 \<and> fst (getMemory d) = 0
             \<and> fst (getRates d) = 0 \<and> fst (getTemp d 0) = 0
          then PushBack
            \<lparr> name = snd (getName d 256),
              vendor = ''NVIDIA'',
              driver_version =
                (if fst (getDriver 256) \<noteq> 0 then ''Unknown'' else snd (getDriver 256)),
              memory_total = ucast (mem_total (snd (getMemory d)) div 1048576),
              memory_used = ucast (mem_used (snd (getMemory d)) div 1048576),
              memory_free = ucast (mem_free (snd (getMemory d)) div 1048576),
              utilization = F_of_uint (util_gpu (snd (getRates d))),
              temperature = F_of_uint (snd (getTemp d 0)),
              power_usage = (if fst (getPower d) \<noteq> 0 then F_zero
                             else F_div_1000 (F_of_uint (snd (getPower d)))),
              clock_core = (if fst (getClock d 0) \<noteq> 0 then F_zero
                            else F_of_uint (snd (getClock d 0))),
              clock_memory = (if fst (getClock d 1) \<noteq> 0 then F_zero
                              else F_of_uint (snd (getClock d 1))) \<rparr>
          else Continue)
    \<and> getAllGPUInfo_loop m 0 xs
        = Some (xs @ concat (map (emitted m) (index_range 0 (device_count m))))"
proof -
  have "\<forall>j. getAllGPUInfo_body m j \<noteq> None"
    using assms(1-8) by (simp add: body_eq [OF _ _ _ _ _ _ _ _ refl])
  then have "getAllGPUInfo_loop m 0 xs
        = Some (xs @ concat (map (emitted m) (index_range 0 (device_count m))))"
    by (rule loop_emitted)
  with body_eq [OF assms] show ?thesis by simp
qed

text \<open>
  One device whose driver-version, power and clock fetches fail is emitted with the three
  substitutes; one device whose temperature fetch fails is not emitted.
\<close>

theorem getAllGPUInfo_emits_iff_core_fetches_succeed_witness:
  "getAllGPUInfo_body (sample_monitor 1 [] 0 1 1073741824) 0
     = Some (PushBack ((sample_record ''GPU0'')
         \<lparr> driver_version := ''Unknown'', power_usage := F_zero,
           clock_core := F_zero, clock_memory := F_zero \<rparr>))
   \<and> getAllGPUInfo_body (sample_monitor 1 [] 1 0 1073741824) 0 = Some Continue
   \<and> getAllGPUInfo_loop (sample_monitor 1 [] 0 1 1073741824) 0 []
     = Some [(sample_record ''GPU0'')
         \<lparr> driver_version := ''Unknown'', power_usage := F_zero,
           clock_core := F_zero, clock_memory := F_zero \<rparr>]"
proof -
  let ?m = "sample_monitor 1 [] 0 1 1073741824"
  let ?m' = "sample_monitor 1 [] 1 0 1073741824"
  let ?g = "(sample_record ''GPU0'')
         \<lparr> driver_version := ''Unknown'', power_usage := F_zero,
           clock_core := F_zero, clock_memory := F_zero \<rparr>"
  note a = getAllGPUInfo_emits_iff_core_fetches_succeed
             [OF sample_table refl, of 1 "[]" 0 1 1073741824 0 "[]"]
  note b = getAllGPUInfo_emits_iff_core_fetches_succeed
             [OF sample_table refl, of 1 "[]" 1 0 1073741824 0 "[]"]
  have body: "getAllGPUInfo_body ?m 0 = Some (PushBack ?g)"
    using a by (simp add: sample_record_def)
  have body': "getAllGPUInfo_body ?m' 0 = Some Continue"
    using b by simp
  have "getAllGPUInfo_loop ?m 0 [] = Some (concat (map (emitted ?m) (index_range 0 1)))"
    using a unfolding sample_state by simp
  then have "getAllGPUInfo_loop ?m 0 [] = Some [?g]"
    unfolding index_range_1 by (simp add: emitted_def body)
  with body body' show ?thesis by simp
qed

text \<open>
  Claim C3. On an initialized monitor with a complete table, whatever \<open>device_count\<close> is,
  \<open>getAllGPUInfo\<close> appends what the body emits for the indices whose handle enumeration
  succeeds, in ascending index order: an index whose handle enumeration fails contributes
  nothing and the sweep goes on. When the other core fetches succeed wherever the handle
  does, the new records correspond one to one, in order, to those indices.
\<close>

theorem getAllGPUInfo_skips_failed_handles:
  assumes "fully_bound m" and "is_initialized m"
  shows "\<exists>new. getAllGPUInfo m xs = Some (device_count m \<noteq> 0 \<and> xs @ new \<noteq> [], xs @ new)
     \<and> new = concat (map (emitted m)
               (filter (handle_succeeds m) (index_range 0 (device_count m))))
     \<and> ((\<forall>i \<in> set (index_range 0 (device_count m)).
            handle_succeeds m i \<longrightarrow> other_core_fetches_succeed m i)
         \<longrightarrow> list_all2 (\<lambda>g i. getAllGPUInfo_body m i = Some (PushBack g)) new
               (filter (handle_succeeds m) (index_range 0 (device_count m))))"
proof -
  let ?idx = "index_range 0 (device_count m)"
  let ?new = "concat (map (emitted m) (filter (handle_succeeds m) ?idx))"
  have same: "?new = concat (map (emitted m) ?idx)"
    by (rule concat_map_filter_empty) (rule emitted_handle_fails)
  have run: "getAllGPUInfo m xs = Some (device_count m \<noteq> 0 \<and> xs @ ?new \<noteq> [], xs @ ?new)"
  proof (cases "device_count m = 0")
    case True
    then have "?idx = []" by (simp add: index_range_done)
    with True assms show ?thesis by (simp add: getAllGPUInfo_fully_bound)
  next
    case False
    with assms show ?thesis by (simp add: getAllGPUInfo_fully_bound same)
  qed
  have rel: "list_all2 (\<lambda>g i. getAllGPUInfo_body m i = Some (PushBack g)) ?new
               (filter (handle_succeeds m) ?idx)"
    if "\<forall>i \<in> set ?idx. handle_succeeds m i \<longrightarrow> other_core_fetches_succeed m i"
  proof (rule list_all2_concat_singletons, rule ballI)
    fix i assume "i \<in> set (filter (handle_succeeds m) ?idx)"
    with that have "handle_succeeds m i" and "other_core_fetches_succeed m i" by auto
    then show "\<exists>g. getAllGPUInfo_body m i = Some (PushBack g) \<and> emitted m i = [g]"
      using assms(1) by (rule emitted_all_succeed)
  qed
  from run rel show ?thesis by blast
qed

text \<open>
  Three devices, handle enumeration failing at index 1 only: two records, for the devices
  at indices 0 and 2, in that order.
\<close>

theorem getAllGPUInfo_skips_failed_handles_witness:
  "getAllGPUInfo (sample_monitor 3 [1] 0 0 1073741824) []
     = Some (True, [sample_record ''GPU0'', sample_record ''GPU2''])"
proof -
  let ?m = "sample_monitor 3 [1] 0 0 1073741824"
  have "fully_bound ?m" by (rule sample_fully_bound)
  moreover have "is_initialized ?m" by (simp add: sample_state)
  ultimately obtain new where
    run: "getAllGPUInfo ?m [] = Some (device_count ?m \<noteq> 0 \<and> [] @ new \<noteq> [], [] @ new)"
    and new: "new = concat (map (emitted ?m)
               (filter (handle_succeeds ?m) (index_range 0 (device_count ?m))))"
    using getAllGPUInfo_skips_failed_handles [of ?m "[]"] by blast
  have h: "filter (handle_succeeds ?m) [0, 1, 2] = [0, 2]"
    by (simp add: handle_succeeds_def sample_table)
  have e0: "emitted ?m 0 = [sample_record ''GPU0'']"
    by (simp add: emitted_def body_eq [OF sample_table refl] sample_record_def)
  have e2: "emitted ?m 2 = [sample_record ''GPU2'']"
    by (simp add: emitted_def body_eq [OF sample_table refl] sample_record_def)
  from new have "new = [sample_record ''GPU0'', sample_record ''GPU2'']"
    unfolding sample_state index_range_3 h by (simp add: e0 e2)
  with run show ?thesis by (simp add: sample_state)
qed

section \<open>Unit conversion\<close>

lemma unat_megabytes:
  "unat (ucast (w div 1048576 :: 64 word) :: 32 word) = unat w div 1048576 mod 4294967296"
proof -
  have "unat (ucast (w div 1048576 :: 64 word) :: 32 word)
      = take_bit 32 (unat (w div 1048576))"
    using unsigned_ucast_eq [of "w div 1048576", where 'c = 32 and 'a = nat] by simp
  then show ?thesis by (simp add: unat_div take_bit_eq_mod)
qed

lemma megabytes_small:
  assumes "unat (w :: 64 word) < 2 ^ 52"
  shows "unat (ucast (w div 1048576) :: 32 word) = unat w div 1048576"
proof -
  from assms have "unat w div 1048576 < 4294967296" by simp
  then show ?thesis by (simp add: unat_megabytes)
qed

text \<open>
  Claim C8, as stated, fails: the quotient is cast to \<open>unsigned int\<close>, so a total of
  \<open>2\<^sup>5\<^sup>2\<close> bytes, whose quotient by 1,048,576 is \<open>2\<^sup>3\<^sup>2\<close>, is reported as 0 MB.
\<close>

theorem memory_megabytes_counterexample:
  "getAllGPUInfo (sample_monitor 1 [] 0 0 4503599627370496) []
     = Some (True, [(sample_record ''GPU0'') \<lparr> memory_total := 0 \<rparr>])
   \<and> (4503599627370496 :: nat) div 1048576 = 4294967296"
proof -
  let ?m = "sample_monitor 1 [] 0 0 4503599627370496"
  have e: "emitted ?m 0 = [(sample_record ''GPU0'') \<lparr> memory_total := 0 \<rparr>]"
    by (simp add: emitted_def body_eq [OF sample_table refl] sample_record_def)
  have "getAllGPUInfo ?m [] = Some (concat (map (emitted ?m) (index_range 0 1)) \<noteq> [],
          concat (map (emitted ?m) (index_range 0 1)))"
    using getAllGPUInfo_fully_bound [OF sample_fully_bound, of 1 "[]" 0 0 4503599627370496 "[]"]
    by (simp add: sample_state)
  then show ?thesis unfolding index_range_1 by (simp add: e)
qed

text \<open>
  Claim C8, amended. For every emitted record the memory-info fetch succeeded, and
  \<open>memory_total\<close>, \<open>memory_used\<close> and \<open>memory_free\<close> are the byte counts divided by
  1,048,576 with integer division, reduced modulo \<open>2\<^sup>3\<^sup>2\<close> by the cast to
  \<open>unsigned int\<close>; for a byte count below \<open>2\<^sup>5\<^sup>2\<close> that is the quotient itself.
\<close>

theorem memory_megabytes:
  assumes "nvmlDeviceGetHandleByIndex m = Some getHandle"
    and "nvmlDeviceGetMemoryInfo m = Some getMemory"
    and "getAllGPUInfo_body m i = Some (PushBack g)"
    and "info = snd (getMemory (snd (getHandle i)))"
  shows "fst (getMemory (snd (getHandle i))) = 0
     \<and> unat (memory_total g) = unat (mem_total info) div 1048576 mod 2 ^ 32
     \<and> unat (memory_used g) = unat (mem_used info) div 1048576 mod 2 ^ 32
     \<and> unat (memory_free g) = unat (mem_free info) div 1048576 mod 2 ^ 32
     \<and> (unat (mem_total info) < 2 ^ 52
          \<longrightarrow> unat (memory_total g) = unat (mem_total info) div 1048576)
     \<and> (unat (mem_used info) < 2 ^ 52
          \<longrightarrow> unat (memory_used g) = unat (mem_used info) div 1048576)
     \<and> (unat (mem_free info) < 2 ^ 52
          \<longrightarrow> unat (memory_free g) = unat (mem_free info) div 1048576)"
proof -
  from assms have g: "fst (getMemory (snd (getHandle i))) = 0
     \<and> memory_total g = ucast (mem_total info div 1048576)
     \<and> memory_used g = ucast (mem_used info div 1048576)
     \<and> memory_free g = ucast (mem_free info div 1048576)"
    by (auto simp: getAllGPUInfo_body_def bind_eq_Some_conv Let_def case_prod_beta
        split: if_splits)
  then show ?thesis
    by (simp add: unat_megabytes megabytes_small)
qed

text \<open>
  A total of 1,073,741,824 bytes is 1024 MB; 3,145,727 free bytes, one byte short of
  3 MB, are 2 MB.
\<close>

theorem memory_megabytes_witness:
  "getAllGPUInfo_body (sample_monitor 1 [] 0 0 1073741824) 0
     = Some (PushBack (sample_record ''GPU0''))
   \<and> unat (memory_total (sample_record ''GPU0'')) = 1073741824 div 1048576
   \<and> unat (memory_total (sample_record ''GPU0'')) = 1024
   \<and> unat (memory_free (sample_record ''GPU0'')) = 3145727 div 1048576
   \<and> unat (memory_free (sample_record ''GPU0'')) = 2"
proof -
  let ?m = "sample_monitor 1 [] 0 0 1073741824"
  have body: "getAllGPUInfo_body ?m 0 = Some (PushBack (sample_record ''GPU0''))"
    by (simp add: body_eq [OF sample_table refl] sample_record_def)
  from memory_megabytes [OF sample_table(1) sample_table(4) body refl]
  have "unat (memory_total (sample_record ''GPU0'')) = 1073741824 div 1048576"
    and "unat (memory_free (sample_record ''GPU0'')) = 3145727 div 1048576"
    by simp_all
  with body show ?thesis by simp
qed

section \<open>The result of a sweep\<close>

text \<open>
  Claim C5, as stated, fails: with a record already in the caller's list and one device
  whose handle enumeration fails, the call produces no record and still returns true.
\<close>

theorem getAllGPUInfo_true_without_new_record:
  "getAllGPUInfo (sample_monitor 1 [0] 0 0 1073741824) [sample_record ''earlier'']
     = Some (True, [sample_record ''earlier''])"
proof -
  let ?m = "sample_monitor 1 [0] 0 0 1073741824"
  have e: "emitted ?m 0 = []"
    by (simp add: emitted_def body_eq [OF sample_table refl])
  have "getAllGPUInfo ?m [sample_record ''earlier'']
      = Some ([sample_record ''earlier''] @ concat (map (emitted ?m) (index_range 0 1)) \<noteq> [],
          [sample_record ''earlier''] @ concat (map (emitted ?m) (index_range 0 1)))"
    using getAllGPUInfo_fully_bound [OF sample_fully_bound, of 1 "[0]" 0 0 1073741824
        "[sample_record ''earlier'']"]
    by (simp add: sample_state)
  then show ?thesis unfolding index_range_1 by (simp add: e)
qed

text \<open>
  Claim C5, amended. On a monitor whose table is complete if it is initialized,
  \<open>getAllGPUInfo\<close> returns the caller's list
  followed by the records emitted for the indices below \<open>device_count\<close> in ascending order
  (none when the monitor is not initialized or has no device), and it returns true exactly
  when the monitor is initialized, has a device and the resulting list is not empty. Called
  with an empty list it returns false exactly when the call produced no record.
\<close>

theorem getAllGPUInfo_result:
  assumes "is_initialized m \<longrightarrow> fully_bound m"
  shows "\<exists>new. getAllGPUInfo m xs
           = Some (is_initialized m \<and> device_count m \<noteq> 0 \<and> xs @ new \<noteq> [], xs @ new)
     \<and> new = (if is_initialized m \<and> device_count m \<noteq> 0
              then concat (map (emitted m) (index_range 0 (device_count m))) else [])
     \<and> (xs = [] \<longrightarrow> getAllGPUInfo m xs = Some (new \<noteq> [], new))"
  using assms by (simp add: getAllGPUInfo_eq)

text \<open>
  From an empty list: three devices of which the middle one has no handle give two
  records and true; two devices without handles give no record and false.
\<close>

theorem getAllGPUInfo_result_witness:
  "getAllGPUInfo (sample_monitor 3 [1] 0 1 1073741824) []
     = Some (True, map (\<lambda>n. (sample_record n)
         \<lparr> driver_version := ''Unknown'', power_usage := F_zero,
           clock_core := F_zero, clock_memory := F_zero \<rparr>) [''GPU0'', ''GPU2''])
   \<and> getAllGPUInfo (sample_monitor 2 [0, 1] 0 0 1073741824) [] = Some (False, [])"
proof -
  let ?m = "sample_monitor 3 [1] 0 1 1073741824"
  let ?m' = "sample_monitor 2 [0, 1] 0 0 1073741824"
  have e: "emitted ?m 0 = [(sample_record ''GPU0'')
         \<lparr> driver_version := ''Unknown'', power_usage := F_zero,
           clock_core := F_zero, clock_memory := F_zero \<rparr>]"
     "emitted ?m 1 = []"
     "emitted ?m 2 = [(sample_record ''GPU2'')
         \<lparr> driver_version := ''Unknown'', power_usage := F_zero,
           clock_core := F_zero, clock_memory := F_zero \<rparr>]"
    by (simp_all add: emitted_def body_eq [OF sample_table refl] sample_record_def)
  have e': "emitted ?m' 0 = []" "emitted ?m' 1 = []"
    by (simp_all add: emitted_def body_eq [OF sample_table refl])
  have i2: "index_range 0 2 = [0, 1]" by (simp add: index_range_def upt_rec)
  from getAllGPUInfo_result [OF sample_usable, of 3 "[1]" 0 1 1073741824 "[]"]
  have "getAllGPUInfo ?m [] = Some (concat (map (emitted ?m) (index_range 0 3)) \<noteq> [],
          concat (map (emitted ?m) (index_range 0 3)))"
    by (simp add: sample_state)
  then have a: "getAllGPUInfo ?m [] = Some (True, map (\<lambda>n. (sample_record n)
         \<lparr> driver_version := ''Unknown'', power_usage := F_zero,
           clock_core := F_zero, clock_memory := F_zero \<rparr>) [''GPU0'', ''GPU2''])"
    unfolding index_range_3 by (simp add: e)
  from getAllGPUInfo_result [OF sample_usable, of 2 "[0, 1]" 0 0 1073741824 "[]"]
  have "getAllGPUInfo ?m' [] = Some (concat (map (emitted ?m') (index_range 0 2)) \<noteq> [],
          concat (map (emitted ?m') (index_range 0 2)))"
    by (simp add: sample_state)
  then have b: "getAllGPUInfo ?m' [] = Some (False, [])"
    unfolding i2 by (simp add: e')
  from a b show ?thesis by simp
qed

section \<open>The caller's list\<close>

lemma IGPUMonitor_getAllGPUInfo_total:
  assumes "\<forall>m. monitor = Nvidia m \<longrightarrow> is_initialized m \<longrightarrow> fully_bound m"
  shows "\<exists>ok temp_list. IGPUMonitor_getAllGPUInfo monitor [] = Some (ok, temp_list)"
  using assms by (cases monitor) (auto simp: getAllGPUInfo_eq)

lemma Manager_loop_appends:
  assumes "\<forall>m. Nvidia m \<in> set monitors \<longrightarrow> is_initialized m \<longrightarrow> fully_bound m"
  shows "\<exists>new. Manager_getAllGPUInfo_loop monitors xs = Some (xs @ new)"
  using assms
proof (induction monitors arbitrary: xs)
  case Nil
  then show ?case by simp
next
  case (Cons monitor rest)
  from Cons.prems have "\<forall>m. monitor = Nvidia m \<longrightarrow> is_initialized m \<longrightarrow> fully_bound m"
    by simp
  then obtain ok temp_list where q: "IGPUMonitor_getAllGPUInfo monitor [] = Some (ok, temp_list)"
    using IGPUMonitor_getAllGPUInfo_total by blast
  from Cons.prems have rest:
    "\<forall>m. Nvidia m \<in> set rest \<longrightarrow> is_initialized m \<longrightarrow> fully_bound m"
    by simp
  obtain new where
    "Manager_getAllGPUInfo_loop rest (if ok then xs @ temp_list else xs)
       = Some ((if ok then xs @ temp_list else xs) @ new)"
    using Cons.IH [OF rest] by blast
  with q show ?case by (cases ok) simp_all
qed

text \<open>
  Claim C10. Neither \<open>NVIDIA_GPUMonitor::getAllGPUInfo\<close> nor
  \<open>GPUMonitorManager::getAllGPUInfo\<close> clears the caller's list: on monitors whose table is
  complete if they are initialized, as every state reached on a host is, the list returned
  is the list passed in, followed by the new records. Past the guard (the monitor initialized with
  a device, the manager initialized) the boolean is the non-emptiness of that final list;
  when the guard fails the call returns false and the list as it was.
\<close>

theorem getAllGPUInfo_appends:
  assumes "is_initialized m \<longrightarrow> fully_bound m"
    and "\<forall>m'. Nvidia m' \<in> set (gpu_monitors mgr) \<longrightarrow> is_initialized m' \<longrightarrow> fully_bound m'"
  shows "(\<exists>new. getAllGPUInfo m xs
            = Some (is_initialized m \<and> device_count m \<noteq> 0 \<and> xs @ new \<noteq> [], xs @ new))
     \<and> (\<exists>new. Manager_getAllGPUInfo mgr xs
            = Some (manager_is_initialized mgr \<and> xs @ new \<noteq> [], xs @ new))"
proof -
  have "\<exists>new. getAllGPUInfo m xs
            = Some (is_initialized m \<and> device_count m \<noteq> 0 \<and> xs @ new \<noteq> [], xs @ new)"
    using assms(1) by (simp add: getAllGPUInfo_eq)
  moreover have "\<exists>new. Manager_getAllGPUInfo mgr xs
            = Some (manager_is_initialized mgr \<and> xs @ new \<noteq> [], xs @ new)"
  proof (cases "manager_is_initialized mgr")
    case False
    then show ?thesis by (simp add: Manager_getAllGPUInfo_def)
  next
    case True
    obtain new where "Manager_getAllGPUInfo_loop (gpu_monitors mgr) xs = Some (xs @ new)"
      using Manager_loop_appends [OF assms(2)] by blast
    with True show ?thesis by (simp add: Manager_getAllGPUInfo_def)
  qed
  ultimately show ?thesis by simp
qed

text \<open>
  With two records in the list and no device yielding a handle, both calls add nothing
  and return true.
\<close>

theorem getAllGPUInfo_appends_witness:
  "getAllGPUInfo (sample_monitor 2 [0, 1] 0 0 1073741824)
      [sample_record ''kept'', sample_record ''also kept'']
     = Some (True, [sample_record ''kept'', sample_record ''also kept''])
   \<and> Manager_getAllGPUInfo
       \<lparr> gpu_monitors = [Nvidia (sample_monitor 2 [0, 1] 0 0 1073741824)],
         manager_is_initialized = True \<rparr>
       [sample_record ''kept'', sample_record ''also kept'']
     = Some (True, [sample_record ''kept'', sample_record ''also kept''])"
proof -
  let ?m = "sample_monitor 2 [0, 1] 0 0 1073741824"
  let ?mgr = "\<lparr> gpu_monitors = [Nvidia ?m], manager_is_initialized = True \<rparr>"
  let ?xs = "[sample_record ''kept'', sample_record ''also kept'']"
  have e: "emitted ?m 0 = []" "emitted ?m 1 = []"
    by (simp_all add: emitted_def body_eq [OF sample_table refl])
  have i2: "index_range 0 2 = [0, 1]" by (simp add: index_range_def upt_rec)
  have "getAllGPUInfo ?m [] = Some (concat (map (emitted ?m) (index_range 0 2)) \<noteq> [],
          concat (map (emitted ?m) (index_range 0 2)))"
    using getAllGPUInfo_fully_bound [OF sample_fully_bound, of 2 "[0, 1]" 0 0 1073741824 "[]"]
    by (simp add: sample_state)
  then have empty: "getAllGPUInfo ?m [] = Some (False, [])"
    unfolding i2 by (simp add: e)
  have "getAllGPUInfo ?m ?xs = Some (?xs @ concat (map (emitted ?m) (index_range 0 2)) \<noteq> [],
          ?xs @ concat (map (emitted ?m) (index_range 0 2)))"
    using getAllGPUInfo_fully_bound [OF sample_fully_bound, of 2 "[0, 1]" 0 0 1073741824 ?xs]
    by (simp add: sample_state)
  then have a: "getAllGPUInfo ?m ?xs = Some (True, ?xs)"
    unfolding i2 by (simp add: e)
  have b: "Manager_getAllGPUInfo ?mgr ?xs = Some (True, ?xs)"
    by (simp add: Manager_getAllGPUInfo_def empty)
  have "is_initialized ?m \<longrightarrow> fully_bound ?m" by (rule sample_usable)
  moreover have "\<forall>m'. Nvidia m' \<in> set (gpu_monitors ?mgr)
      \<longrightarrow> is_initialized m' \<longrightarrow> fully_bound m'"
    by (simp add: sample_fully_bound)
  ultimately have "(\<exists>new. getAllGPUInfo ?m ?xs
            = Some (is_initialized ?m \<and> device_count ?m \<noteq> 0 \<and> ?xs @ new \<noteq> [], ?xs @ new))
     \<and> (\<exists>new. Manager_getAllGPUInfo ?mgr ?xs
            = Some (manager_is_initialized ?mgr \<and> ?xs @ new \<noteq> [], ?xs @ new))"
    by (rule getAllGPUInfo_appends)
  with a b show ?thesis by simp
qed

section \<open>Binding and releasing\<close>

lemma holds_exports_fully_bound:
  "holds_exports m e \<Longrightarrow> fully_bound m = exports_complete e"
  by (simp add: holds_exports_def fully_bound_def exports_complete_def)

lemma initialize_load_fails:
  assumes "load_nvml h = None"
  shows "NVIDIA_initialize h m = Some (False, m\<lparr>nvml_lib := None\<rparr>, [])"
  using assms by (simp add: NVIDIA_initialize_def)

lemma initialize_symbol_missing:
  assumes "load_nvml h = Some l" and "\<not> exports_complete (GetProcAddress h l)"
  shows "\<exists>m'. NVIDIA_initialize h m = Some (False, m', [Opened l])
     \<and> nvml_lib m' = Some l \<and> holds_exports m' (GetProcAddress h l)
     \<and> is_initialized m' = is_initialized m \<and> device_count m' = device_count m"
  using assms
  by (auto simp: NVIDIA_initialize_def exports_complete_def holds_exports_def Let_def)

lemma initialize_complete:
  assumes "load_nvml h = Some l" and "exports_complete (GetProcAddress h l)"
  shows "\<exists>ok m' calls. NVIDIA_initialize h m = Some (ok, m', calls)
     \<and> nvml_lib m' = Some l \<and> holds_exports m' (GetProcAddress h l)
     \<and> is_initialized m' = (ok \<or> is_initialized m)
     \<and> calls \<in> {[Opened l, Called_nvmlInit],
               [Opened l, Called_nvmlInit, Called_nvmlShutdown]}"
  using assms
  by (auto simp: NVIDIA_initialize_def exports_complete_def holds_exports_def Let_def
      split: prod.splits)

lemma initialize_total:
  "\<exists>ok m' calls. NVIDIA_initialize h m = Some (ok, m', calls)"
proof (cases "load_nvml h")
  case None
  then show ?thesis by (auto simp: initialize_load_fails)
next
  case (Some l)
  show ?thesis
  proof (cases "exports_complete (GetProcAddress h l)")
    case True
    with Some initialize_complete [of h l m] show ?thesis by blast
  next
    case False
    with Some initialize_symbol_missing [of h l m] show ?thesis by blast
  qed
qed

lemma cleanup_eq:
  "NVIDIA_cleanup m =
     Some (m\<lparr>nvml_lib := None, is_initialized := False, device_count := 0\<rparr>,
           (if is_initialized m \<and> nvmlShutdown m \<noteq> None then [Called_nvmlShutdown] else [])
           @ (case nvml_lib m of Some l \<Rightarrow> [Closed l] | None \<Rightarrow> []))"
  by (cases "nvmlShutdown m"; cases "nvml_lib m") (simp_all add: NVIDIA_cleanup_def)

lemma uninitialized_queries:
  assumes "\<not> is_initialized m"
  shows "getAllGPUInfo m xs = Some (False, xs)" and "getGPUInfo m g = Some (False, g)"
  using assms by (simp_all add: getAllGPUInfo_def getGPUInfo_def)

lemma sample_host_load: "load_nvml (sample_host e) = Some 7"
  by (simp add: load_nvml_def sample_host_def)

lemma sample_host_exports: "GetProcAddress (sample_host e) l = e"
  by (simp add: sample_host_def)

lemma sample_exports_complete: "exports_complete (sample_exports b i c) = b"
  by (simp add: exports_complete_def sample_exports_def sample_monitor_def)

text \<open>The invariant of a monitor on a fixed host.\<close>

lemma nvidia_reachable_invariant:
  assumes "nvidia_reachable h m" and "is_initialized m"
  shows "(\<exists>l. load_nvml h = Some l \<and> exports_complete (GetProcAddress h l)) \<and> fully_bound m"
  using assms
proof (induction rule: nvidia_reachable.induct)
  case constructed
  then show ?case by (simp add: NVIDIA_GPUMonitor_new_def)
next
  case (initialized m ok m' calls)
  show ?case
  proof (cases "load_nvml h")
    case None
    with initialized.hyps(2) have "m' = m\<lparr>nvml_lib := None\<rparr>"
      by (simp add: initialize_load_fails)
    with initialized.prems have "is_initialized m" by simp
    with initialized.IH None show ?thesis by simp
  next
    case (Some l)
    show ?thesis
    proof (cases "exports_complete (GetProcAddress h l)")
      case True
      from initialize_complete [OF Some True, of m] initialized.hyps(2)
      have "holds_exports m' (GetProcAddress h l)" by auto
      with True have "fully_bound m'" by (simp add: holds_exports_fully_bound)
      with Some True show ?thesis by blast
    next
      case False
      from initialize_symbol_missing [OF Some False, of m] initialized.hyps(2)
      have "is_initialized m' = is_initialized m" by auto
      with initialized.prems have "is_initialized m" by simp
      with initialized.IH Some False show ?thesis by simp
    qed
  qed
next
  case (cleaned m m' calls)
  from cleaned.hyps(2) have "\<not> is_initialized m'" by (auto simp: cleanup_eq)
  with cleaned.prems show ?case by simp
qed

text \<open>
  Claim C1, as stated, fails: when ten of the eleven entry points resolve, \<open>initialize\<close>
  returns false and the monitor keeps the library handle and the ten pointers.
\<close>

theorem initialize_keeps_partial_table:
  "initialize_result (sample_host (sample_exports False 0 0)) NVIDIA_GPUMonitor_new = Some False
   \<and> nvml_lib (initialize_state (sample_host (sample_exports False 0 0)) NVIDIA_GPUMonitor_new)
       = Some 7
   \<and> nvmlSystemGetDriverVersion
       (initialize_state (sample_host (sample_exports False 0 0)) NVIDIA_GPUMonitor_new) = None
   \<and> nvmlInit (initialize_state (sample_host (sample_exports False 0 0)) NVIDIA_GPUMonitor_new)
       \<noteq> None
   \<and> resolved_count
       (initialize_state (sample_host (sample_exports False 0 0)) NVIDIA_GPUMonitor_new) = 10"
proof -
  let ?h = "sample_host (sample_exports False 0 0)"
  have inc: "\<not> exports_complete (GetProcAddress ?h 7)"
    by (simp add: sample_host_exports sample_exports_complete)
  from initialize_symbol_missing [OF sample_host_load inc, of NVIDIA_GPUMonitor_new]
  obtain m' where run: "NVIDIA_initialize ?h NVIDIA_GPUMonitor_new = Some (False, m', [Opened 7])"
    and lib: "nvml_lib m' = Some 7"
    and tab: "holds_exports m' (sample_exports False 0 0)"
    by (auto simp: sample_host_exports)
  from run have st: "initialize_state ?h NVIDIA_GPUMonitor_new = m'"
    and res: "initialize_result ?h NVIDIA_GPUMonitor_new = Some False"
    by (simp_all add: initialize_state_def initialize_result_def)
  from tab have "nvmlSystemGetDriverVersion m' = None" and "nvmlInit m' \<noteq> None"
    and "resolved_count m' = 10"
    by (simp_all add: holds_exports_def sample_exports_def resolved_count_def sample_monitor_def)
  with res lib show ?thesis unfolding st by simp
qed

text \<open>
  Claim C1, amended. On a host where the library loads and lacks one of the eleven entry
  points, no state the monitor reaches is initialized; \<open>initialize\<close> returns false, having
  opened the library and stored the pointers that resolved, and leaves the monitor
  uninitialized. \<open>getAllGPUInfo\<close> and \<open>getGPUInfo\<close> then return false and hand back
  their argument unchanged, as they do on every uninitialized monitor whatever its
  pointers are: no function pointer is called.
\<close>

theorem initialize_missing_symbol:
  assumes "load_nvml h = Some l" and "\<not> exports_complete (GetProcAddress h l)"
    and "nvidia_reachable h m"
  shows "\<not> is_initialized m
     \<and> (\<exists>m'. NVIDIA_initialize h m = Some (False, m', [Opened l])
          \<and> nvml_lib m' = Some l \<and> holds_exports m' (GetProcAddress h l) \<and> \<not> fully_bound m'
          \<and> \<not> is_initialized m' \<and> device_count m' = device_count m
          \<and> nvidia_reachable h m'
          \<and> getAllGPUInfo m' xs = Some (False, xs) \<and> getGPUInfo m' g = Some (False, g))
     \<and> (\<forall>m''. \<not> is_initialized m''
          \<longrightarrow> getAllGPUInfo m'' xs = Some (False, xs) \<and> getGPUInfo m'' g = Some (False, g))"
proof -
  have un: "\<not> is_initialized m"
    using nvidia_reachable_invariant [OF assms(3)] assms(1,2) by auto
  from initialize_symbol_missing [OF assms(1,2), of m]
  obtain m' where run: "NVIDIA_initialize h m = Some (False, m', [Opened l])"
    and lib: "nvml_lib m' = Some l"
    and tab: "holds_exports m' (GetProcAddress h l)"
    and ini: "is_initialized m' = is_initialized m"
    and cnt: "device_count m' = device_count m"
    by blast
  from tab assms(2) have nb: "\<not> fully_bound m'" by (simp add: holds_exports_fully_bound)
  from assms(3) run have re: "nvidia_reachable h m'" by (rule nvidia_reachable.initialized)
  from un ini have un': "\<not> is_initialized m'" by simp
  from un run lib tab nb un' cnt re uninitialized_queries [OF un'] show ?thesis
    by (auto simp: uninitialized_queries)
qed

text \<open>The library without \<open>nvmlSystemGetDriverVersion\<close>, on a monitor as constructed.\<close>

theorem initialize_missing_symbol_witness:
  "nvidia_reachable (sample_host (sample_exports False 0 0)) NVIDIA_GPUMonitor_new
   \<and> NVIDIA_initialize (sample_host (sample_exports False 0 0)) NVIDIA_GPUMonitor_new
       = Some (False, initialize_state (sample_host (sample_exports False 0 0)) NVIDIA_GPUMonitor_new,
               [Opened 7])
   \<and> getAllGPUInfo
       (initialize_state (sample_host (sample_exports False 0 0)) NVIDIA_GPUMonitor_new) []
       = Some (False, [])
   \<and> getGPUInfo
       (initialize_state (sample_host (sample_exports False 0 0)) NVIDIA_GPUMonitor_new)
       (sample_record ''untouched'')
       = Some (False, sample_record ''untouched'')"
proof -
  let ?h = "sample_host (sample_exports False 0 0)"
  have inc: "\<not> exports_complete (GetProcAddress ?h 7)"
    by (simp add: sample_host_exports sample_exports_complete)
  have re: "nvidia_reachable ?h NVIDIA_GPUMonitor_new" by (rule nvidia_reachable.constructed)
  from initialize_missing_symbol [OF sample_host_load inc re, of "[]" "sample_record ''untouched''"]
  obtain m' where run: "NVIDIA_initialize ?h NVIDIA_GPUMonitor_new = Some (False, m', [Opened 7])"
    and q: "getAllGPUInfo m' [] = Some (False, [])"
      "getGPUInfo m' (sample_record ''untouched'') = Some (False, sample_record ''untouched'')"
    by blast
  from run have st: "initialize_state ?h NVIDIA_GPUMonitor_new = m'"
    by (simp add: initialize_state_def)
  from re run q show ?thesis unfolding st by simp
qed

section \<open>A failed \<open>initialize\<close>\<close>

lemma initialize_flag:
  assumes "NVIDIA_initialize h m = Some (ok, m', calls)"
  shows "is_initialized m' = (ok \<or> is_initialized m)"
proof (cases "load_nvml h")
  case None
  with assms show ?thesis by (auto simp: initialize_load_fails)
next
  case (Some l)
  show ?thesis
  proof (cases "exports_complete (GetProcAddress h l)")
    case True
    from initialize_complete [OF Some True, of m] assms show ?thesis by auto
  next
    case False
    from initialize_symbol_missing [OF Some False, of m] assms show ?thesis by auto
  qed
qed

lemma initialize_failure_log:
  assumes "load_nvml h = Some l" and "NVIDIA_initialize h m = Some (False, m', calls)"
  shows "calls \<in> {[Opened l], [Opened l, Called_nvmlInit],
                [Opened l, Called_nvmlInit, Called_nvmlShutdown]}"
proof (cases "exports_complete (GetProcAddress h l)")
  case True
  from initialize_complete [OF assms(1) True, of m] assms(2) show ?thesis by auto
next
  case False
  from initialize_symbol_missing [OF assms(1) False, of m] assms(2) show ?thesis by auto
qed

lemma initialize_loaded:
  assumes "load_nvml h = Some l" and "NVIDIA_initialize h m = Some (ok, m', calls)"
  shows "nvml_lib m' = Some l \<and> holds_exports m' (GetProcAddress h l)"
proof (cases "exports_complete (GetProcAddress h l)")
  case True
  from initialize_complete [OF assms(1) True, of m] assms(2) show ?thesis by auto
next
  case False
  from initialize_symbol_missing [OF assms(1) False, of m] assms(2) show ?thesis by auto
qed

lemma initialize_complete_outcome:
  assumes "load_nvml h = Some l" and "exports_complete (GetProcAddress h l)"
    and "sym_nvmlInit (GetProcAddress h l) = Some init"
    and "sym_nvmlDeviceGetCount (GetProcAddress h l) = Some getCount"
  shows "\<exists>m'. NVIDIA_initialize h m
     = Some (init () = 0 \<and> fst (getCount (device_count m)) = 0, m',
             if init () \<noteq> 0 then [Opened l, Called_nvmlInit]
             else if fst (getCount (device_count m)) \<noteq> 0
             then [Opened l, Called_nvmlInit, Called_nvmlShutdown]
             else [Opened l, Called_nvmlInit])"
proof -
  from assms(2) obtain shutdown where "sym_nvmlShutdown (GetProcAddress h l) = Some shutdown"
    by (auto simp: exports_complete_def)
  with assms show ?thesis
    by (simp add: NVIDIA_initialize_def exports_complete_def Let_def split: prod.splits)
qed

lemma initialize_result_independent:
  assumes "device_count m2 = device_count m1"
  shows "initialize_result h m2 = initialize_result h m1"
proof (cases "load_nvml h")
  case None
  then show ?thesis by (simp add: initialize_result_def initialize_load_fails)
next
  case (Some l)
  show ?thesis
  proof (cases "exports_complete (GetProcAddress h l)")
    case False
    from initialize_symbol_missing [OF Some False, of m1]
      initialize_symbol_missing [OF Some False, of m2]
    show ?thesis by (auto simp: initialize_result_def)
  next
    case True
    then obtain init getCount where "sym_nvmlInit (GetProcAddress h l) = Some init"
      and "sym_nvmlDeviceGetCount (GetProcAddress h l) = Some getCount"
      by (auto simp: exports_complete_def)
    from initialize_complete_outcome [OF Some True this, of m1]
      initialize_complete_outcome [OF Some True this, of m2] assms
    show ?thesis by (auto simp: initialize_result_def)
  qed
qed

lemma sample_exports_init:
  "sym_nvmlInit (sample_exports b i c) = Some (\<lambda>_. i)"
  "sym_nvmlDeviceGetCount (sample_exports b i c) = Some (\<lambda>old. (c, if c = 0 then 2 else old))"
  by (simp_all add: sample_exports_def)

lemma sample_host_outcome:
  "\<exists>m'. NVIDIA_initialize (sample_host (sample_exports True i c)) m
     = Some (i = 0 \<and> c = 0, m',
             if i \<noteq> 0 then [Opened 7, Called_nvmlInit]
             else if c \<noteq> 0 then [Opened 7, Called_nvmlInit, Called_nvmlShutdown]
             else [Opened 7, Called_nvmlInit])"
proof -
  let ?h = "sample_host (sample_exports True i c)"
  have c: "exports_complete (GetProcAddress ?h 7)"
    by (simp add: sample_host_exports sample_exports_complete)
  have i: "sym_nvmlInit (GetProcAddress ?h 7) = Some (\<lambda>_. i)"
    and g: "sym_nvmlDeviceGetCount (GetProcAddress ?h 7)
              = Some (\<lambda>old. (c, if c = 0 then 2 else old))"
    by (simp_all add: sample_host_exports sample_exports_init)
  from initialize_complete_outcome [OF sample_host_load c i g, of m]
  show ?thesis by (cases "i = 0"; cases "c = 0"; simp)
qed

text \<open>
  Claim C4, as stated, fails: when \<open>nvmlInit\<close> fails, \<open>initialize\<close> returns false
  having opened the library and closed nothing; the monitor keeps the handle and the eleven
  pointers and is not in the state it was constructed in.
\<close>

theorem initialize_failure_leaves_state:
  "initialize_result (sample_host (sample_exports True 1 0)) NVIDIA_GPUMonitor_new = Some False
   \<and> initialize_log (sample_host (sample_exports True 1 0)) NVIDIA_GPUMonitor_new
       = [Opened 7, Called_nvmlInit]
   \<and> nvml_lib (initialize_state (sample_host (sample_exports True 1 0)) NVIDIA_GPUMonitor_new)
       = Some 7
   \<and> resolved_count
       (initialize_state (sample_host (sample_exports True 1 0)) NVIDIA_GPUMonitor_new) = 11
   \<and> initialize_state (sample_host (sample_exports True 1 0)) NVIDIA_GPUMonitor_new
       \<noteq> NVIDIA_GPUMonitor_new"
proof -
  let ?h = "sample_host (sample_exports True 1 0)"
  from sample_host_outcome [of 1 0 NVIDIA_GPUMonitor_new]
  obtain m' where run: "NVIDIA_initialize ?h NVIDIA_GPUMonitor_new
      = Some (False, m', [Opened 7, Called_nvmlInit])"
    by auto
  from initialize_loaded [OF sample_host_load run]
  have lib: "nvml_lib m' = Some 7" and tab: "holds_exports m' (sample_exports True 1 0)"
    by (simp_all add: sample_host_exports)
  from tab have rc: "resolved_count m' = 11"
    by (simp add: holds_exports_def sample_exports_def resolved_count_def sample_monitor_def)
  have "nvml_lib NVIDIA_GPUMonitor_new = None" by (simp add: NVIDIA_GPUMonitor_new_def)
  with lib have ne: "m' \<noteq> NVIDIA_GPUMonitor_new" by auto
  from run have "initialize_result ?h NVIDIA_GPUMonitor_new = Some False"
    and "initialize_log ?h NVIDIA_GPUMonitor_new = [Opened 7, Called_nvmlInit]"
    and "initialize_state ?h NVIDIA_GPUMonitor_new = m'"
    by (simp_all add: initialize_result_def initialize_log_def initialize_state_def)
  with lib rc ne show ?thesis by simp
qed

text \<open>
  Claim C4, amended. Once the library has loaded, \<open>initialize\<close> returns with the handle
  and the pointers \<open>dlsym\<close> gave stored in the monitor. When it returns false,
  \<open>is_initialized\<close> is as it was and nothing has been released: the library calls made are
  the load alone (a missing symbol), the load and \<open>nvmlInit\<close> (vendor-init failure), or the
  load, \<open>nvmlInit\<close> and \<open>nvmlShutdown\<close> (device-count failure), never a close. The handle
  is given back by \<open>cleanup()\<close>, which closes it and resets \<open>nvml_lib\<close>,
  \<open>is_initialized\<close> and \<open>device_count\<close>. What a later \<open>initialize\<close> returns does not
  depend on the handle or the pointers left behind.
\<close>

theorem initialize_failure_keeps_library:
  assumes "load_nvml h = Some l"
  shows "\<exists>ok m' calls. NVIDIA_initialize h m = Some (ok, m', calls)
     \<and> nvml_lib m' = Some l \<and> holds_exports m' (GetProcAddress h l)
     \<and> (\<not> ok \<longrightarrow>
          is_initialized m' = is_initialized m
        \<and> calls \<in> {[Opened l], [Opened l, Called_nvmlInit],
                  [Opened l, Called_nvmlInit, Called_nvmlShutdown]}
        \<and> Closed l \<notin> set calls
        \<and> (\<exists>m''. NVIDIA_cleanup m'
              = Some (m'', (if is_initialized m \<and> nvmlShutdown m' \<noteq> None
                            then [Called_nvmlShutdown] else []) @ [Closed l])
              \<and> nvml_lib m'' = None \<and> \<not> is_initialized m'' \<and> device_count m'' = 0)
        \<and> (\<forall>h2 m2. device_count m2 = device_count m'
              \<longrightarrow> initialize_result h2 m2 = initialize_result h2 m'))"
proof -
  obtain ok m' calls where run: "NVIDIA_initialize h m = Some (ok, m', calls)"
    using initialize_total by blast
  note loaded = initialize_loaded [OF assms run]
  have fail: "is_initialized m' = is_initialized m
        \<and> calls \<in> {[Opened l], [Opened l, Called_nvmlInit],
                  [Opened l, Called_nvmlInit, Called_nvmlShutdown]}
        \<and> Closed l \<notin> set calls
        \<and> (\<exists>m''. NVIDIA_cleanup m'
              = Some (m'', (if is_initialized m \<and> nvmlShutdown m' \<noteq> None
                            then [Called_nvmlShutdown] else []) @ [Closed l])
              \<and> nvml_lib m'' = None \<and> \<not> is_initialized m'' \<and> device_count m'' = 0)
        \<and> (\<forall>h2 m2. device_count m2 = device_count m'
              \<longrightarrow> initialize_result h2 m2 = initialize_result h2 m')" if "\<not> ok"
  proof -
    from that run have run': "NVIDIA_initialize h m = Some (False, m', calls)" by simp
    from initialize_flag [OF run'] have flag: "is_initialized m' = is_initialized m" by simp
    note lg = initialize_failure_log [OF assms run']
    then have nc: "Closed l \<notin> set calls" by auto
    from loaded flag have "\<exists>m''. NVIDIA_cleanup m'
              = Some (m'', (if is_initialized m \<and> nvmlShutdown m' \<noteq> None
                            then [Called_nvmlShutdown] else []) @ [Closed l])
              \<and> nvml_lib m'' = None \<and> \<not> is_initialized m'' \<and> device_count m'' = 0"
      by (simp add: cleanup_eq)
    moreover have "\<forall>h2 m2. device_count m2 = device_count m'
              \<longrightarrow> initialize_result h2 m2 = initialize_result h2 m'"
      using initialize_result_independent by blast
    ultimately show ?thesis using flag lg nc by blast
  qed
  from run loaded fail show ?thesis by blast
qed

text \<open>
  A device-count failure on a monitor as constructed: false, the library opened, switched
  on and off, the handle kept; \<open>cleanup()\<close> then closes it.
\<close>

theorem initialize_failure_keeps_library_witness:
  "initialize_result (sample_host (sample_exports True 0 1)) NVIDIA_GPUMonitor_new = Some False
   \<and> initialize_log (sample_host (sample_exports True 0 1)) NVIDIA_GPUMonitor_new
       = [Opened 7, Called_nvmlInit, Called_nvmlShutdown]
   \<and> nvml_lib (initialize_state (sample_host (sample_exports True 0 1)) NVIDIA_GPUMonitor_new)
       = Some 7
   \<and> map_option snd (NVIDIA_cleanup
        (initialize_state (sample_host (sample_exports True 0 1)) NVIDIA_GPUMonitor_new))
       = Some [Closed 7]"
proof -
  let ?h = "sample_host (sample_exports True 0 1)"
  from sample_host_outcome [of 0 1 NVIDIA_GPUMonitor_new]
  obtain m0 where run0: "NVIDIA_initialize ?h NVIDIA_GPUMonitor_new
      = Some (False, m0, [Opened 7, Called_nvmlInit, Called_nvmlShutdown])"
    by auto
  from initialize_failure_keeps_library [OF sample_host_load, of "sample_exports True 0 1" NVIDIA_GPUMonitor_new]
  obtain ok m' calls where run: "NVIDIA_initialize ?h NVIDIA_GPUMonitor_new = Some (ok, m', calls)"
    and lib: "nvml_lib m' = Some 7"
    and fail: "\<not> ok \<longrightarrow> (\<exists>m''. NVIDIA_cleanup m'
              = Some (m'', (if is_initialized NVIDIA_GPUMonitor_new \<and> nvmlShutdown m' \<noteq> None
                            then [Called_nvmlShutdown] else []) @ [Closed 7]))"
    by blast
  from run run0 have ok: "ok = False" and m: "m' = m0"
    and calls: "calls = [Opened 7, Called_nvmlInit, Called_nvmlShutdown]"
    by simp_all
  have "\<not> is_initialized NVIDIA_GPUMonitor_new" by (simp add: NVIDIA_GPUMonitor_new_def)
  with fail ok have "map_option snd (NVIDIA_cleanup m') = Some [Closed 7]"
    by auto
  moreover from run ok calls have "initialize_result ?h NVIDIA_GPUMonitor_new = Some False"
    and "initialize_log ?h NVIDIA_GPUMonitor_new = [Opened 7, Called_nvmlInit, Called_nvmlShutdown]"
    and "initialize_state ?h NVIDIA_GPUMonitor_new = m'"
    by (simp_all add: initialize_result_def initialize_log_def initialize_state_def)
  ultimately show ?thesis using lib by simp
qed

section \<open>The manager's lifecycle\<close>

lemma new_monitor_state:
  "\<not> is_initialized NVIDIA_GPUMonitor_new" "nvml_lib NVIDIA_GPUMonitor_new = None"
  "device_count NVIDIA_GPUMonitor_new = 0"
  by (simp_all add: NVIDIA_GPUMonitor_new_def)

lemma initialize_success:
  assumes "NVIDIA_initialize h m = Some (True, m', calls)"
  shows "fully_bound m' \<and> is_initialized m'"
proof (cases "load_nvml h")
  case None
  with assms show ?thesis by (simp add: initialize_load_fails)
next
  case (Some l)
  show ?thesis
  proof (cases "exports_complete (GetProcAddress h l)")
    case True
    from initialize_loaded [OF Some assms] have "holds_exports m' (GetProcAddress h l)"
      by simp
    from holds_exports_fully_bound [OF this] True have "fully_bound m'" by simp
    with initialize_flag [OF assms] show ?thesis by simp
  next
    case False
    from initialize_symbol_missing [OF Some False, of m] assms show ?thesis by auto
  qed
qed

lemma IGPUMonitor_cleanup_total:
  "\<exists>mon' calls. IGPUMonitor_cleanup mon = Some (mon', calls) \<and> uninitialized_backend mon'"
  by (cases mon)
    (simp_all add: cleanup_eq uninitialized_backend_def AMD_cleanup_def Intel_cleanup_def)

lemma IGPUMonitor_delete_eq:
  "IGPUMonitor_delete mon =
     Some (case mon of
             Nvidia m \<Rightarrow>
               (if is_initialized m \<and> nvmlShutdown m \<noteq> None then [Called_nvmlShutdown] else [])
               @ (case nvml_lib m of Some l \<Rightarrow> [Closed l] | None \<Rightarrow> [])
           | AMD a \<Rightarrow> []
           | Intel a \<Rightarrow> [])"
  by (cases mon) (simp_all add: IGPUMonitor_delete_def cleanup_eq)

lemma delete_uninitialized:
  assumes "uninitialized_backend mon"
  shows "IGPUMonitor_delete mon = Some []"
  using assms by (cases mon) (simp_all add: IGPUMonitor_delete_eq uninitialized_backend_def)

lemma Manager_cleanup_loop_total: "\<exists>calls. Manager_cleanup_loop monitors = Some calls"
proof (induction monitors)
  case Nil
  show ?case by simp
next
  case (Cons monitor rest)
  obtain mon' log1 where c: "IGPUMonitor_cleanup monitor = Some (mon', log1)"
    and u: "uninitialized_backend mon'"
    using IGPUMonitor_cleanup_total by blast
  from Cons.IH obtain log3 where "Manager_cleanup_loop rest = Some log3" by blast
  with c delete_uninitialized [OF u] show ?case by simp
qed

lemma Manager_cleanup_eq:
  "\<exists>calls. Manager_cleanup mgr = Some (GPUMonitorManager_new, calls)"
proof -
  obtain calls where "Manager_cleanup_loop (gpu_monitors mgr) = Some calls"
    using Manager_cleanup_loop_total by blast
  then show ?thesis by (simp add: Manager_cleanup_def GPUMonitorManager_new_def)
qed

lemma Manager_cleanup_new: "Manager_cleanup GPUMonitorManager_new = Some (GPUMonitorManager_new, [])"
  by (simp add: Manager_cleanup_def GPUMonitorManager_new_def)

lemma Manager_initialize_eq:
  assumes "NVIDIA_initialize h NVIDIA_GPUMonitor_new = Some (ok, nv, log1)"
  shows "Manager_initialize h mgr =
     Some (gpu_monitors mgr @ (if ok then [Nvidia nv] else []) \<noteq> [],
           mgr\<lparr>gpu_monitors := gpu_monitors mgr @ (if ok then [Nvidia nv] else []),
               manager_is_initialized := (gpu_monitors mgr @ (if ok then [Nvidia nv] else []) \<noteq> [])\<rparr>,
           log1 @ (if ok then []
                   else (case nvml_lib nv of Some l \<Rightarrow> [Closed l] | None \<Rightarrow> [])))"
proof (cases ok)
  case True
  with assms show ?thesis
    by (simp add: Manager_initialize_def push_back_or_delete_def IGPUMonitor_delete_eq
        AMD_initialize_def Intel_initialize_def)
next
  case False
  from initialize_flag [OF assms] False have "\<not> is_initialized nv"
    by (simp add: new_monitor_state)
  with assms False show ?thesis
    by (simp add: Manager_initialize_def push_back_or_delete_def IGPUMonitor_delete_eq
        AMD_initialize_def Intel_initialize_def)
qed

lemma backend_attempts_eq:
  assumes "NVIDIA_initialize h NVIDIA_GPUMonitor_new = Some (ok, nv, log1)"
  shows "map snd (filter fst (backend_attempts h)) = (if ok then [Nvidia nv] else [])"
  using assms by (simp add: backend_attempts_def AMD_initialize_def Intel_initialize_def)

lemma manager_reachable_invariant:
  assumes "manager_reachable h mgr"
  shows "(gpu_monitors mgr \<noteq> [] \<longrightarrow> initialize_result h NVIDIA_GPUMonitor_new = Some True)
     \<and> manager_is_initialized mgr = (gpu_monitors mgr \<noteq> [])
     \<and> (\<forall>m. Nvidia m \<in> set (gpu_monitors mgr) \<longrightarrow> fully_bound m)"
  using assms
proof (induction rule: manager_reachable.induct)
  case constructed
  show ?case by (simp add: GPUMonitorManager_new_def)
next
  case (initialized mgr b mgr' calls)
  obtain ok nv log1 where run: "NVIDIA_initialize h NVIDIA_GPUMonitor_new = Some (ok, nv, log1)"
    using initialize_total by blast
  from Manager_initialize_eq [OF run, of mgr] initialized.hyps(2)
  have mons: "gpu_monitors mgr' = gpu_monitors mgr @ (if ok then [Nvidia nv] else [])"
    and flag: "manager_is_initialized mgr' = (gpu_monitors mgr' \<noteq> [])"
    by auto
  from run have res: "initialize_result h NVIDIA_GPUMonitor_new = Some ok"
    by (simp add: initialize_result_def)
  have "fully_bound nv" if ok
  proof -
    from that run have "NVIDIA_initialize h NVIDIA_GPUMonitor_new = Some (True, nv, log1)"
      by simp
    then show ?thesis using initialize_success by blast
  qed
  with mons flag res initialized.IH show ?case by (cases ok) auto
next
  case (cleaned mgr mgr' calls)
  from Manager_cleanup_eq [of mgr] cleaned.hyps(2) have "mgr' = GPUMonitorManager_new" by auto
  then show ?case by (simp add: GPUMonitorManager_new_def)
qed

text \<open>
  Claim C6, as stated, fails: \<open>initialize\<close> never clears \<open>gpu_monitors\<close>. A manager
  that holds the backend of an earlier successful \<open>initialize\<close> returns true from a second
  call in which no backend initializes (here \<open>nvmlInit\<close> fails the second time).
\<close>

theorem Manager_initialize_true_without_backend:
  "Manager_initialize_result (sample_host (sample_exports True 0 0)) GPUMonitorManager_new
     = Some True
   \<and> filter fst (backend_attempts (sample_host (sample_exports True 1 0))) = []
   \<and> Manager_initialize_result (sample_host (sample_exports True 1 0))
       (Manager_initialize_state (sample_host (sample_exports True 0 0)) GPUMonitorManager_new)
     = Some True"
proof -
  let ?good = "sample_host (sample_exports True 0 0)"
  let ?bad = "sample_host (sample_exports True 1 0)"
  from sample_host_outcome [of 0 0 NVIDIA_GPUMonitor_new]
  obtain m1 where run1: "NVIDIA_initialize ?good NVIDIA_GPUMonitor_new
      = Some (True, m1, [Opened 7, Called_nvmlInit])"
    by auto
  from sample_host_outcome [of 1 0 NVIDIA_GPUMonitor_new]
  obtain m2 where run2: "NVIDIA_initialize ?bad NVIDIA_GPUMonitor_new
      = Some (False, m2, [Opened 7, Called_nvmlInit])"
    by auto
  let ?mgr1 = "GPUMonitorManager_new\<lparr>gpu_monitors := [Nvidia m1], manager_is_initialized := True\<rparr>"
  have new: "gpu_monitors GPUMonitorManager_new = []" by (simp add: GPUMonitorManager_new_def)
  from Manager_initialize_eq [OF run1, of GPUMonitorManager_new]
  have step1: "Manager_initialize ?good GPUMonitorManager_new
      = Some (True, ?mgr1, [Opened 7, Called_nvmlInit])"
    by (simp add: new)
  then have st: "Manager_initialize_state ?good GPUMonitorManager_new = ?mgr1"
    and r1: "Manager_initialize_result ?good GPUMonitorManager_new = Some True"
    by (simp_all add: Manager_initialize_state_def Manager_initialize_result_def)
  from Manager_initialize_eq [OF run2, of ?mgr1]
  have "Manager_initialize_result ?bad ?mgr1 = Some True"
    by (simp add: Manager_initialize_result_def)
  moreover from backend_attempts_eq [OF run2] have "filter fst (backend_attempts ?bad) = []"
    by simp
  ultimately show ?thesis using r1 unfolding st by simp
qed

text \<open>
  Claim C6, amended. On every manager and host, \<open>initialize\<close> appends to \<open>gpu_monitors\<close>
  exactly the backends whose \<open>initialize()\<close> returned true, in order (the AMD and Intel
  backends never do), and deletes the others: a failed Nvidia backend's destructor closes
  the library it had opened. It returns true, and sets \<open>is_initialized\<close>, exactly when the
  manager then holds a backend. On a manager that holds no backend on entry, that is exactly
  when the call retained one; when none initializes it returns false, the manager holds no
  backend, and \<open>getAllGPUInfo\<close> afterwards returns false and appends nothing.
\<close>

theorem Manager_initialize_retains_successful:
  "\<exists>ok nv log1 mgr' calls.
       NVIDIA_initialize h NVIDIA_GPUMonitor_new = Some (ok, nv, log1)
     \<and> Manager_initialize h mgr = Some (gpu_monitors mgr' \<noteq> [], mgr', calls)
     \<and> gpu_monitors mgr' = gpu_monitors mgr @ map snd (filter fst (backend_attempts h))
     \<and> map snd (filter fst (backend_attempts h)) = (if ok then [Nvidia nv] else [])
     \<and> manager_is_initialized mgr' = (gpu_monitors mgr' \<noteq> [])
     \<and> calls = log1 @ (if ok then []
                     else (case nvml_lib nv of Some l \<Rightarrow> [Closed l] | None \<Rightarrow> []))
     \<and> (gpu_monitors mgr = []
          \<longrightarrow> (gpu_monitors mgr' \<noteq> []) = (filter fst (backend_attempts h) \<noteq> []))
     \<and> (gpu_monitors mgr = [] \<and> filter fst (backend_attempts h) = []
          \<longrightarrow> gpu_monitors mgr' = [] \<and> \<not> manager_is_initialized mgr'
            \<and> (\<forall>xs. Manager_getAllGPUInfo mgr' xs = Some (False, xs)))"
proof -
  obtain ok nv log1 where run: "NVIDIA_initialize h NVIDIA_GPUMonitor_new = Some (ok, nv, log1)"
    using initialize_total by blast
  let ?kept = "map snd (filter fst (backend_attempts h))"
  let ?mons = "gpu_monitors mgr @ ?kept"
  let ?mgr' = "mgr\<lparr>gpu_monitors := ?mons, manager_is_initialized := (?mons \<noteq> [])\<rparr>"
  let ?calls = "log1 @ (if ok then []
                     else (case nvml_lib nv of Some l \<Rightarrow> [Closed l] | None \<Rightarrow> []))"
  note kept = backend_attempts_eq [OF run]
  have step: "Manager_initialize h mgr = Some (?mons \<noteq> [], ?mgr', ?calls)"
    using Manager_initialize_eq [OF run, of mgr] by (simp add: kept)
  have iff: "(?mons \<noteq> []) = (filter fst (backend_attempts h) \<noteq> [])"
    if "gpu_monitors mgr = []"
    using that by simp
  have none: "gpu_monitors ?mgr' = [] \<and> \<not> manager_is_initialized ?mgr'
            \<and> (\<forall>xs. Manager_getAllGPUInfo ?mgr' xs = Some (False, xs))"
    if "gpu_monitors mgr = [] \<and> filter fst (backend_attempts h) = []"
  proof -
    from that have "?mons = []" by simp
    then show ?thesis by (simp add: Manager_getAllGPUInfo_def)
  qed
  show ?thesis
  proof (intro exI conjI)
    show "NVIDIA_initialize h NVIDIA_GPUMonitor_new = Some (ok, nv, log1)" by (rule run)
    show "Manager_initialize h mgr = Some (gpu_monitors ?mgr' \<noteq> [], ?mgr', ?calls)"
      using step by simp
    show "gpu_monitors ?mgr' = gpu_monitors mgr @ map snd (filter fst (backend_attempts h))"
      by simp
    show "map snd (filter fst (backend_attempts h)) = (if ok then [Nvidia nv] else [])"
      by (rule kept)
    show "manager_is_initialized ?mgr' = (gpu_monitors ?mgr' \<noteq> [])" by simp
    show "?calls = ?calls" by (rule refl)
    show "gpu_monitors mgr = []
          \<longrightarrow> (gpu_monitors ?mgr' \<noteq> []) = (filter fst (backend_attempts h) \<noteq> [])"
      using iff by simp
    show "gpu_monitors mgr = [] \<and> filter fst (backend_attempts h) = []
          \<longrightarrow> gpu_monitors ?mgr' = [] \<and> \<not> manager_is_initialized ?mgr'
            \<and> (\<forall>xs. Manager_getAllGPUInfo ?mgr' xs = Some (False, xs))"
      using none by blast
  qed
qed

text \<open>
  A manager as constructed and a library lacking an entry point: no backend works, the
  call returns false, and the library the Nvidia backend opened has been closed again.
\<close>

theorem Manager_initialize_retains_successful_witness:
  "gpu_monitors GPUMonitorManager_new = []
   \<and> Manager_initialize (sample_host (sample_exports False 0 0)) GPUMonitorManager_new
       = Some (False, GPUMonitorManager_new, [Opened 7, Closed 7])
   \<and> Manager_getAllGPUInfo GPUMonitorManager_new [] = Some (False, [])"
proof -
  let ?h = "sample_host (sample_exports False 0 0)"
  have new: "gpu_monitors GPUMonitorManager_new = []" by (simp add: GPUMonitorManager_new_def)
  have inc: "\<not> exports_complete (GetProcAddress ?h 7)"
    by (simp add: sample_host_exports sample_exports_complete)
  from initialize_symbol_missing [OF sample_host_load inc, of NVIDIA_GPUMonitor_new]
  obtain m0 where run0: "NVIDIA_initialize ?h NVIDIA_GPUMonitor_new = Some (False, m0, [Opened 7])"
    and lib0: "nvml_lib m0 = Some 7"
    by blast
  from Manager_initialize_retains_successful [of ?h GPUMonitorManager_new]
  obtain ok nv log1 mgr' calls where
    run: "NVIDIA_initialize ?h NVIDIA_GPUMonitor_new = Some (ok, nv, log1)"
    and step: "Manager_initialize ?h GPUMonitorManager_new = Some (gpu_monitors mgr' \<noteq> [], mgr', calls)"
    and mons: "gpu_monitors mgr' = gpu_monitors GPUMonitorManager_new
                 @ map snd (filter fst (backend_attempts ?h))"
    and kept: "map snd (filter fst (backend_attempts ?h)) = (if ok then [Nvidia nv] else [])"
    and flag: "manager_is_initialized mgr' = (gpu_monitors mgr' \<noteq> [])"
    and calls: "calls = log1 @ (if ok then []
                     else (case nvml_lib nv of Some l \<Rightarrow> [Closed l] | None \<Rightarrow> []))"
    and none: "gpu_monitors GPUMonitorManager_new = [] \<and> filter fst (backend_attempts ?h) = []
          \<longrightarrow> (\<forall>xs. Manager_getAllGPUInfo mgr' xs = Some (False, xs))"
    by blast
  from run run0 have ok: "\<not> ok" and nv: "nv = m0" and log1: "log1 = [Opened 7]" by simp_all
  from mons kept ok new have empty: "gpu_monitors mgr' = []" by simp
  with flag have "mgr' = GPUMonitorManager_new" by (simp add: GPUMonitorManager_new_def)
  moreover from calls ok nv log1 lib0 have "calls = [Opened 7, Closed 7]" by simp
  moreover from kept ok have "filter fst (backend_attempts ?h) = []" by simp
  ultimately show ?thesis using new step none empty by simp
qed

text \<open>
  Claim C7. \<open>cleanup()\<close> returns normally on every monitor, whatever its pointers are: it
  calls \<open>nvmlShutdown\<close> only when the monitor is initialized and the pointer is non-null,
  closes the library only when the handle is non-null, and leaves the handle null,
  \<open>is_initialized\<close> false and \<open>device_count\<close> 0. The same holds through the virtual call
  for each backend class. \<open>GPUMonitorManager::cleanup()\<close> on a manager as constructed
  returns it unchanged; on any manager it returns one with no backends and
  \<open>is_initialized\<close> false, on which a second call changes nothing and makes no library
  call.
\<close>

theorem cleanup_never_faults:
  "(\<exists>m'. NVIDIA_cleanup m
       = Some (m', (if is_initialized m \<and> nvmlShutdown m \<noteq> None
                    then [Called_nvmlShutdown] else [])
                   @ (case nvml_lib m of Some l \<Rightarrow> [Closed l] | None \<Rightarrow> []))
       \<and> nvml_lib m' = None \<and> \<not> is_initialized m' \<and> device_count m' = 0)
   \<and> (\<exists>mon' calls. IGPUMonitor_cleanup mon = Some (mon', calls) \<and> uninitialized_backend mon')
   \<and> Manager_cleanup GPUMonitorManager_new = Some (GPUMonitorManager_new, [])
   \<and> (\<exists>mgr' calls. Manager_cleanup mgr = Some (mgr', calls)
        \<and> gpu_monitors mgr' = [] \<and> \<not> manager_is_initialized mgr'
        \<and> Manager_cleanup mgr' = Some (mgr', []))"
proof -
  obtain calls where "Manager_cleanup mgr = Some (GPUMonitorManager_new, calls)"
    using Manager_cleanup_eq by blast
  then have "\<exists>mgr' calls. Manager_cleanup mgr = Some (mgr', calls)
        \<and> gpu_monitors mgr' = [] \<and> \<not> manager_is_initialized mgr'
        \<and> Manager_cleanup mgr' = Some (mgr', [])"
    using Manager_cleanup_new by (auto simp: GPUMonitorManager_new_def)
  with IGPUMonitor_cleanup_total [of mon] Manager_cleanup_new show ?thesis
    by (simp add: cleanup_eq)
qed

text \<open>
  A monitor as constructed, a monitor after an \<open>initialize\<close> that failed on a missing
  symbol, and a manager as constructed.
\<close>

theorem cleanup_never_faults_witness:
  "map_option snd (NVIDIA_cleanup NVIDIA_GPUMonitor_new) = Some []
   \<and> map_option snd (NVIDIA_cleanup
        (initialize_state (sample_host (sample_exports False 0 0)) NVIDIA_GPUMonitor_new))
       = Some [Closed 7]
   \<and> map_option (nvml_lib \<circ> fst) (NVIDIA_cleanup
        (initialize_state (sample_host (sample_exports False 0 0)) NVIDIA_GPUMonitor_new))
       = Some None
   \<and> Manager_cleanup GPUMonitorManager_new = Some (GPUMonitorManager_new, [])"
proof -
  let ?h = "sample_host (sample_exports False 0 0)"
  have inc: "\<not> exports_complete (GetProcAddress ?h 7)"
    by (simp add: sample_host_exports sample_exports_complete)
  from initialize_symbol_missing [OF sample_host_load inc, of NVIDIA_GPUMonitor_new]
  obtain m0 where run0: "NVIDIA_initialize ?h NVIDIA_GPUMonitor_new = Some (False, m0, [Opened 7])"
    and lib0: "nvml_lib m0 = Some 7" and ini0: "\<not> is_initialized m0"
    by (auto simp: new_monitor_state)
  from run0 have st: "initialize_state ?h NVIDIA_GPUMonitor_new = m0"
    by (simp add: initialize_state_def)
  from cleanup_never_faults [of NVIDIA_GPUMonitor_new "Nvidia NVIDIA_GPUMonitor_new" GPUMonitorManager_new]
  have a: "map_option snd (NVIDIA_cleanup NVIDIA_GPUMonitor_new) = Some []"
    and d: "Manager_cleanup GPUMonitorManager_new = Some (GPUMonitorManager_new, [])"
    by (auto simp: new_monitor_state)
  from cleanup_never_faults [of m0 "Nvidia m0" GPUMonitorManager_new] lib0 ini0
  have "map_option snd (NVIDIA_cleanup m0) = Some [Closed 7]"
    and "map_option (nvml_lib \<circ> fst) (NVIDIA_cleanup m0) = Some None"
    by auto
  with a d show ?thesis unfolding st by simp
qed

section \<open>Power in watts\<close>

lemma round_even_of_nat: "round_even (real n) = int n"
proof -
  have "round_even (of_int (int n)) = int n" by (simp add: round_even_def)
  then show ?thesis by simp
qed

text \<open>A natural number below \<open>2\<^sup>2\<^sup>4\<close> is a binary32 number.\<close>

lemma binary32_of_nat:
  assumes "n < 2 ^ 24"
  shows "binary32 (real n) = real n"
proof (cases "n = 0")
  case True
  then show ?thesis by (simp add: binary32_def)
next
  case False
  define e where "e = \<lfloor>log 2 (real n)\<rfloor>"
  from False have pos: "0 < real n" and one: "1 \<le> real n" by simp_all
  have e0: "0 \<le> e"
    unfolding e_def using one by simp
  from assms have "real n < real (2 ^ 24)" by (simp only: of_nat_less_iff)
  then have "real n < 2 powr 24" by simp
  then have "log 2 (real n) < 24" using pos by (simp add: log_less_iff)
  then have e23: "e \<le> 23" unfolding e_def by linarith
  define k where "k = nat (23 - e)"
  from e0 e23 have ek: "real_of_int e - 23 = - real k" unfolding k_def by simp
  have ulp: "(2::real) powr (of_int e - 23) = 1 / 2 ^ k"
    unfolding ek by (simp add: powr_minus powr_realpow inverse_eq_divide)
  have q: "real n / (1 / 2 ^ k) = real (n * 2 ^ k)" by simp
  from e0 have mx: "max e (- 126) = e" by simp
  have "binary32 (real n) = of_int (round_even (real n / (1 / 2 ^ k))) * (1 / 2 ^ k)"
    using False mx ulp by (simp add: binary32_def e_def [symmetric] Let_def)
  also have "\<dots> = real (n * 2 ^ k) * (1 / 2 ^ k)"
    unfolding q round_even_of_nat by simp
  also have "\<dots> = real n" by simp
  finally show ?thesis .
qed

text \<open>
  Claim C9. In every emitted record whose power fetch succeeded with \<open>p\<close> milliwatts,
  \<open>power_usage\<close> is \<open>static_cast<float>(p) / 1000.0f\<close>: the binary32 quotient of \<open>p\<close>,
  converted to binary32, by 1000. For \<open>p\<close> below \<open>2\<^sup>2\<^sup>4\<close> the conversion is exact and the
  field is \<open>p / 1000\<close> rounded once to binary32.
\<close>

theorem power_usage_watts:
  assumes "nvmlDeviceGetHandleByIndex m = Some getHandle"
    and "nvmlDeviceGetPowerUsage m = Some getPower"
    and "getAllGPUInfo_body m i = Some (PushBack g)"
    and "getPower (snd (getHandle i)) = (0, p)"
  shows "power_usage g = F_div_1000 (F_of_uint p)
     \<and> fval (power_usage g) = binary32 (binary32 (real (unat p)) / 1000)
     \<and> (unat p < 2 ^ 24 \<longrightarrow> fval (power_usage g) = binary32 (real (unat p) / 1000))"
proof -
  from assms have g: "power_usage g = F_div_1000 (F_of_uint p)"
    by (auto simp: getAllGPUInfo_body_def bind_eq_Some_conv Let_def case_prod_beta
        split: if_splits)
  then have v: "fval (power_usage g) = binary32 (binary32 (real (unat p)) / 1000)" by simp
  have "fval (power_usage g) = binary32 (real (unat p) / 1000)" if "unat p < 2 ^ 24"
    using v binary32_of_nat [OF that] by simp
  with g v show ?thesis by blast
qed

text \<open>125,000 milliwatts are exactly 125 watts.\<close>

theorem power_usage_watts_witness:
  "getAllGPUInfo_body (sample_monitor 1 [] 0 0 1073741824) 0
     = Some (PushBack (sample_record ''GPU0''))
   \<and> power_usage (sample_record ''GPU0'') = F_div_1000 (F_of_uint 125000)
   \<and> fval (power_usage (sample_record ''GPU0'')) = 125"
proof -
  let ?m = "sample_monitor 1 [] 0 0 1073741824"
  have body: "getAllGPUInfo_body ?m 0 = Some (PushBack (sample_record ''GPU0''))"
    by (simp add: body_eq [OF sample_table refl] sample_record_def)
  have small: "unat (125000 :: uint) < 2 ^ 24" by simp
  from power_usage_watts [OF sample_table(1) sample_table(7) body, of 125000]
  have p: "power_usage (sample_record ''GPU0'') = F_div_1000 (F_of_uint 125000)"
    and "unat (125000 :: uint) < 2 ^ 24
      \<longrightarrow> fval (power_usage (sample_record ''GPU0''))
          = binary32 (real (unat (125000 :: uint)) / 1000)"
    by simp_all
  with small have "fval (power_usage (sample_record ''GPU0'')) = binary32 (real (125 :: nat))"
    by simp
  also have "\<dots> = real (125 :: nat)" by (rule binary32_of_nat) simp
  finally have "fval (power_usage (sample_record ''GPU0'')) = 125" by simp
  with body p show ?thesis by simp
qed

end
